theory Spec2Isabelle
  imports Complex_Main
begin

section \<open>Python values\<close>

text \<open>
  Python's unbounded integers are \<^typ>\<open>int\<close>. Log lines and console prints are kept as
  events carrying the values they print; their wording is not modelled. The exceptions
  the code can raise are values.
\<close>

datatype py_error = KeyError | ValueError | TypeError | AttributeError | OverflowError
  | ZeroDivisionError | GatewayError

subsection \<open>Floats\<close>

text \<open>
  A Python float is an IEEE 754 binary64 value: a finite double, an infinity or NaN.
  Every arithmetic result is rounded to the nearest double, ties to the even mantissa,
  with gradual underflow below \<open>2 ^ -1022\<close> and overflow to an infinity from
  \<open>2 ^ 1024\<close> on. The sign of a zero is not kept: no comparison, truth test or
  truncation of the code tells \<open>-0.0\<close> from \<open>0.0\<close>.
\<close>

datatype pyfloat = Fin real | PInf | NInf | NaN

text \<open>Rounding to the nearest integer, a tie going to the even one.\<close>

definition rhe :: "real \<Rightarrow> int" where
  "rhe y = (let f = \<lfloor>y\<rfloor>; r = y - of_int f
            in if r < 1/2 then f else if 1/2 < r then f + 1 else if even f then f else f + 1)"

text \<open>
  The binary exponent of a positive number, found by halving or doubling it, and held
  within the exponent range of binary64: at most 1024 halvings (beyond them the number
  overflows whatever its mantissa) and at most 1022 doublings (below them the number is
  subnormal and keeps the exponent \<open>-1022\<close>).
\<close>

fun halvings :: "nat \<Rightarrow> real \<Rightarrow> nat" where
  "halvings 0 x = 0"
| "halvings (Suc n) x = (if x < 2 then 0 else Suc (halvings n (x / 2)))"

fun doublings :: "nat \<Rightarrow> real \<Rightarrow> nat" where
  "doublings 0 x = 0"
| "doublings (Suc n) x = (if 1 \<le> x then 0 else Suc (doublings n (2 * x)))"

definition binade :: "real \<Rightarrow> int" where
  "binade a = (if 1 \<le> a then int (halvings 1024 a) else - int (doublings 1022 a))"

definition pow2 :: "int \<Rightarrow> real" where
  "pow2 e = (if 0 \<le> e then 2 ^ nat e else 1 / 2 ^ nat (- e))"

text \<open>The double nearest to a real number: 53 bits of mantissa in the number's binade.\<close>

definition round64 :: "real \<Rightarrow> pyfloat" where
  "round64 x =
     (if x = 0 then Fin 0
      else (let u = pow2 (binade \<bar>x\<bar> - 52);
                r = of_int (rhe (x / u)) * u
            in if 2 ^ 1024 \<le> \<bar>r\<bar> then (if 0 < x then PInf else NInf) else Fin r))"

fun fneg :: "pyfloat \<Rightarrow> pyfloat" where
  "fneg (Fin a) = Fin (- a)"
| "fneg PInf = NInf"
| "fneg NInf = PInf"
| "fneg NaN = NaN"

fun fabs :: "pyfloat \<Rightarrow> pyfloat" where
  "fabs (Fin a) = Fin \<bar>a\<bar>"
| "fabs PInf = PInf"
| "fabs NInf = PInf"
| "fabs NaN = NaN"

fun fadd :: "pyfloat \<Rightarrow> pyfloat \<Rightarrow> pyfloat" where
  "fadd NaN y = NaN"
| "fadd x NaN = NaN"
| "fadd (Fin a) (Fin b) = round64 (a + b)"
| "fadd PInf NInf = NaN"
| "fadd NInf PInf = NaN"
| "fadd PInf y = PInf"
| "fadd NInf y = NInf"
| "fadd x PInf = PInf"
| "fadd x NInf = NInf"

definition fsub :: "pyfloat \<Rightarrow> pyfloat \<Rightarrow> pyfloat" where
  "fsub x y = fadd x (fneg y)"

fun fmul :: "pyfloat \<Rightarrow> pyfloat \<Rightarrow> pyfloat" where
  "fmul NaN y = NaN"
| "fmul x NaN = NaN"
| "fmul (Fin a) (Fin b) = round64 (a * b)"
| "fmul (Fin a) y = (if a = 0 then NaN else if (0 < a) = (y = PInf) then PInf else NInf)"
| "fmul x (Fin b) = (if b = 0 then NaN else if (0 < b) = (x = PInf) then PInf else NInf)"
| "fmul x y = (if x = y then PInf else NInf)"

text \<open>\<open>x / y\<close>: Python raises on a zero divisor before anything else.\<close>

fun fdiv :: "pyfloat \<Rightarrow> pyfloat \<Rightarrow> py_error + pyfloat" where
  "fdiv x (Fin b) =
     (if b = 0 then Inl ZeroDivisionError
      else (case x of
              Fin a \<Rightarrow> Inr (round64 (a / b))
            | PInf \<Rightarrow> Inr (if 0 < b then PInf else NInf)
            | NInf \<Rightarrow> Inr (if 0 < b then NInf else PInf)
            | NaN \<Rightarrow> Inr NaN))"
| "fdiv NaN y = Inr NaN"
| "fdiv x NaN = Inr NaN"
| "fdiv (Fin a) y = Inr (Fin 0)"
| "fdiv x y = Inr NaN"

text \<open>\<open>x < y\<close> and \<open>x <= y\<close> (\<open>x > y\<close> is \<open>flt y x\<close>); \<open>x == y\<close>. NaN compares false.\<close>

fun flt :: "pyfloat \<Rightarrow> pyfloat \<Rightarrow> bool" where
  "flt NaN y = False"
| "flt x NaN = False"
| "flt (Fin a) (Fin b) = (a < b)"
| "flt PInf y = False"
| "flt x NInf = False"
| "flt x y = True"

definition feq :: "pyfloat \<Rightarrow> pyfloat \<Rightarrow> bool" where
  "feq x y = (x \<noteq> NaN \<and> x = y)"

definition fle :: "pyfloat \<Rightarrow> pyfloat \<Rightarrow> bool" where
  "fle x y = (flt x y \<or> feq x y)"

text \<open>
  Python's \<open>max(a, b)\<close> keeps \<open>a\<close> unless \<open>b > a\<close>, and \<open>min(a, b)\<close> keeps \<open>a\<close> unless
  \<open>b < a\<close>.
\<close>

definition py_max :: "pyfloat \<Rightarrow> pyfloat \<Rightarrow> pyfloat" where
  "py_max a b = (if flt a b then b else a)"

definition py_min :: "pyfloat \<Rightarrow> pyfloat \<Rightarrow> pyfloat" where
  "py_min a b = (if flt b a then b else a)"

text \<open>The truth value of a float: false for zero only.\<close>

definition truthy :: "pyfloat \<Rightarrow> bool" where
  "truthy x = (x \<noteq> Fin 0)"

text \<open>
  \<open>int(x)\<close> on a float truncates toward zero and raises on an infinity and on NaN; an
  integer that meets a float in arithmetic is converted first, which raises when it is
  too large.
\<close>

definition py_trunc :: "real \<Rightarrow> int" where
  "py_trunc x = (if 0 \<le> x then \<lfloor>x\<rfloor> else \<lceil>x\<rceil>)"

fun int_of_float :: "pyfloat \<Rightarrow> py_error + int" where
  "int_of_float (Fin a) = Inr (py_trunc a)"
| "int_of_float PInf = Inl OverflowError"
| "int_of_float NInf = Inl OverflowError"
| "int_of_float NaN = Inl ValueError"

definition float_of_int :: "int \<Rightarrow> py_error + pyfloat" where
  "float_of_int n =
     (case round64 (of_int n) of
        Fin r \<Rightarrow> Inr (Fin r)
      | PInf \<Rightarrow> Inl OverflowError
      | NInf \<Rightarrow> Inl OverflowError
      | NaN \<Rightarrow> Inl OverflowError)"

text \<open>
  A numeric field as the gateway hands it over, before \<open>float(...)\<close>: a string or number
  that reads as a float, \<open>None\<close> (\<open>TypeError\<close>), or text that is no number
  (\<open>ValueError\<close>).
\<close>

datatype raw_number = Reads pyfloat | NoneValue | Unreadable

fun py_float :: "raw_number \<Rightarrow> py_error + pyfloat" where
  "py_float (Reads x) = Inr x"
| "py_float NoneValue = Inl TypeError"
| "py_float Unreadable = Inl ValueError"

text \<open>Running one fallible step after another: the first exception ends the run.\<close>

definition and_then :: "py_error + 'a \<Rightarrow> ('a \<Rightarrow> py_error + 'b) \<Rightarrow> py_error + 'b" where
  "and_then r f = (case r of Inl e \<Rightarrow> Inl e | Inr v \<Rightarrow> f v)"

section \<open>The brokerage gateway\<close>

text \<open>\<open>OrderSide\<close>, \<open>TimeInForce\<close> and \<open>MarketOrderRequest\<close> of the brokerage library.\<close>

datatype order_side = BUY | SELL

datatype time_in_force = DAY | GTC

text \<open>The risk manager orders a float quantity, the trader an integer one.\<close>

datatype order_quantity = Shares int | Amount pyfloat

record market_order =
  order_symbol :: string
  order_qty :: order_quantity
  order_side :: order_side
  order_tif :: time_in_force

text \<open>
  A position as the gateway reports it: \<open>pos.symbol\<close>, \<open>pos.qty\<close>, \<open>pos.side.value\<close>,
  \<open>pos.avg_entry_price\<close> and \<open>pos.current_price\<close>; an account with \<open>cash\<close> and
  \<open>equity\<close>.
\<close>

datatype position_side = PosLong | PosShort

record position =
  symbol :: string
  qty :: raw_number
  pos_side :: position_side
  avg_entry_price :: raw_number
  current_price :: raw_number

record account =
  acct_cash :: raw_number
  acct_equity :: raw_number

text \<open>
  The gateway (\<open>self.trader.client\<close>, \<open>self.client\<close>, \<open>self.data_client\<close>). A call that
  raises is \<open>None\<close>; \<open>latest\<close> gives the ask price of the latest quote and the price of
  the latest trade of a ticker, \<open>None\<close> when anything in fetching or comparing them
  raises; \<open>submit_order\<close> is \<open>True\<close> when building the request and submitting it
  return, \<open>False\<close> when either raises.
\<close>

record alpaca =
  get_all_positions :: "position list option"
  get_account :: "account option"
  latest :: "string \<Rightarrow> (pyfloat \<times> pyfloat) option"
  submit_order :: "market_order \<Rightarrow> bool"

section \<open>risk\_manager.py\<close>

datatype risk_side = LONG | SHORT

record risk_record =
  extreme_price :: pyfloat
  side :: risk_side

type_synonym risk_store = "string \<rightharpoonup> risk_record"

record risk_cfg =
  trailing_pct :: pyfloat
  initial_stop_loss_pct :: pyfloat

text \<open>
  The two reasons handed to \<open>execute_close\<close>: the trailing-stop text (chosen when
  \<open>final_stop == trail_stop\<close>) and the hard-stop text.
\<close>

datatype trigger_reason = TRAIL | HARD

text \<open>
  What one pass emits: the new-extreme log lines (lines 110 and 121), the stop line of
  line 129 (symbol, \<open>is_long\<close>, current price, extreme price, final stop), and the two
  outcomes of \<open>execute_close\<close>.
\<close>

datatype risk_event =
    NewExtreme string pyfloat
  | StopLine string bool pyfloat pyfloat pyfloat
  | CloseSubmitted market_order trigger_reason
  | CloseFailed market_order trigger_reason

text \<open>
  The state of one pass: \<open>self.risk_data\<close>, the local \<open>current_symbols\<close>, the events so
  far, the store handed to \<open>_save_data\<close> (\<open>None\<close> while it has not been called, the data
  file then keeping what it held) and the exception that left the pass, if any.
  \<open>_save_data\<close> asks the file system to write \<open>self.risk_data\<close>; the file system itself
  is outside the model.
\<close>

record pass_state =
  risk_data :: risk_store
  current_symbols :: "string list"
  events :: "risk_event list"
  saved :: "risk_store option"
  raised :: "py_error option"

text \<open>
  Lines 92-95: \<open>float(position.qty)\<close>, \<open>float(position.avg_entry_price)\<close> and
  \<open>float(position.current_price)\<close>, in that order and outside every \<open>try\<close>.
\<close>

record reading =
  signed_qty :: pyfloat
  entry :: pyfloat
  current :: pyfloat

definition read_position :: "position \<Rightarrow> py_error + reading" where
  "read_position p =
     and_then (py_float (qty p)) (\<lambda>q.
     and_then (py_float (avg_entry_price p)) (\<lambda>a.
     and_then (py_float (current_price p)) (\<lambda>c.
       Inr \<lparr>signed_qty = q, entry = a, current = c\<rparr>)))"

text \<open>Lines 112-116 (long) and 123-127 (short) of \<open>monitor_and_execute\<close>.\<close>

record stop_level =
  hard_stop :: pyfloat
  trail_stop :: pyfloat
  final_stop :: pyfloat
  triggered :: bool
  sell_side :: order_side

definition stop_levels :: "risk_cfg \<Rightarrow> bool \<Rightarrow> pyfloat \<Rightarrow> pyfloat \<Rightarrow> pyfloat \<Rightarrow> stop_level" where
  "stop_levels cfg is_long avg_entry extreme cur =
     (if is_long then
        (let hard = fmul avg_entry (fsub (Fin 1) (initial_stop_loss_pct cfg));
             trail = fmul extreme (fsub (Fin 1) (trailing_pct cfg));
             final = py_max hard trail
         in \<lparr>hard_stop = hard, trail_stop = trail, final_stop = final,
             triggered = fle cur final, sell_side = SELL\<rparr>)
      else
        (let hard = fmul avg_entry (fadd (Fin 1) (initial_stop_loss_pct cfg));
             trail = fmul extreme (fadd (Fin 1) (trailing_pct cfg));
             final = py_min hard trail
         in \<lparr>hard_stop = hard, trail_stop = trail, final_stop = final,
             triggered = fle final cur, sell_side = BUY\<rparr>))"

text \<open>\<open>execute_close\<close>: the request is built and submitted inside \<open>try\<close>; a failure is logged.\<close>

definition execute_close ::
  "alpaca \<Rightarrow> string \<Rightarrow> pyfloat \<Rightarrow> order_side \<Rightarrow> trigger_reason \<Rightarrow> risk_event" where
  "execute_close gw sy q sd reason =
     (let order_data = \<lparr>order_symbol = sy, order_qty = Amount q, order_side = sd, order_tif = GTC\<rparr>
      in if submit_order gw order_data then CloseSubmitted order_data reason
         else CloseFailed order_data reason)"

text \<open>
  The body of the \<open>for position in positions\<close> loop (lines 90-134). The subscript
  \<open>self.risk_data[symbol]\<close> and \<open>del self.risk_data[symbol]\<close> raise \<open>KeyError\<close> on a
  missing key; a conversion that raises leaves the body after the symbol was appended
  to \<open>current_symbols\<close>.
\<close>

definition monitor_position :: "risk_cfg \<Rightarrow> alpaca \<Rightarrow> pass_state \<Rightarrow> position \<Rightarrow> pass_state" where
  "monitor_position cfg gw st0 p =
     (let sy = symbol p;
          st1 = st0\<lparr>current_symbols := current_symbols st0 @ [sy]\<rparr>
      in case read_position p of
           Inl e \<Rightarrow> st1\<lparr>raised := Some e\<rparr>
         | Inr v \<Rightarrow>
             (let q = fabs (signed_qty v);
                  avg_entry = entry v;
                  cur = current v;
                  is_long = flt (Fin 0) (signed_qty v);
                  st2 = (if sy \<notin> dom (risk_data st1)
                         then st1\<lparr>risk_data := (risk_data st1)
                                (sy \<mapsto> \<lparr>extreme_price = cur,
                                          side = (if is_long then LONG else SHORT)\<rparr>)\<rparr>
                         else st1)
              in case risk_data st2 sy of
                   None \<Rightarrow> st2\<lparr>raised := Some KeyError\<rparr>
                 | Some r \<Rightarrow>
                     (let better = (if is_long then flt (extreme_price r) cur
                                    else flt cur (extreme_price r));
                          st3 = (if better
                                 then st2\<lparr>risk_data := (risk_data st2)(sy \<mapsto> r\<lparr>extreme_price := cur\<rparr>),
                                          events := events st2 @ [NewExtreme sy cur]\<rparr>
                                 else st2);
                          extreme = (if better then cur else extreme_price r);
                          lv = stop_levels cfg is_long avg_entry extreme cur;
                          st4 = st3\<lparr>events := events st3 @ [StopLine sy is_long cur extreme (final_stop lv)]\<rparr>
                      in if triggered lv then
                           (let reason = (if feq (final_stop lv) (trail_stop lv) then TRAIL else HARD);
                                st5 = st4\<lparr>events := events st4 @ [execute_close gw sy q (sell_side lv) reason]\<rparr>
                            in if sy \<in> dom (risk_data st5)
                               then st5\<lparr>risk_data := (risk_data st5)(sy := None)\<rparr>
                               else st5\<lparr>raised := Some KeyError\<rparr>)
                         else st4)))"

text \<open>The loop: an exception in the body leaves it.\<close>

fun monitor_loop :: "risk_cfg \<Rightarrow> alpaca \<Rightarrow> position list \<Rightarrow> pass_state \<Rightarrow> pass_state" where
  "monitor_loop cfg gw [] st = st"
| "monitor_loop cfg gw (p # ps) st =
     (let st' = monitor_position cfg gw st p
      in if raised st' = None then monitor_loop cfg gw ps st' else st')"

text \<open>
  \<open>monitor_and_execute\<close>, started with \<open>self.risk_data = rd\<close>: a failed read of the
  positions returns at once; no positions clears and saves the store; otherwise the loop
  runs, the store is filtered to \<open>current_symbols\<close> (line 136) and saved (line 137). An
  exception in the loop leaves the method before the filter and the save.
\<close>

definition monitor_and_execute :: "risk_cfg \<Rightarrow> alpaca \<Rightarrow> risk_store \<Rightarrow> pass_state" where
  "monitor_and_execute cfg gw rd =
     (let st0 = \<lparr>risk_data = rd, current_symbols = [], events = [], saved = None, raised = None\<rparr>
      in case get_all_positions gw of
           None \<Rightarrow> st0
         | Some positions \<Rightarrow>
             if positions = [] then st0\<lparr>risk_data := Map.empty, saved := Some Map.empty\<rparr>
             else
               (let st = monitor_loop cfg gw positions st0
                in if raised st \<noteq> None then st
                   else
                     (let rd' = (\<lambda>s. if s \<in> set (current_symbols st) then risk_data st s else None)
                      in st\<lparr>risk_data := rd', saved := Some rd'\<rparr>)))"

text \<open>A run of passes, one gateway answer per pass, each started from the store the last one left.\<close>

fun run_passes :: "risk_cfg \<Rightarrow> alpaca list \<Rightarrow> risk_store \<Rightarrow> risk_store list" where
  "run_passes cfg [] rd = []"
| "run_passes cfg (gw # gws) rd =
     (let rd' = risk_data (monitor_and_execute cfg gw rd) in rd' # run_passes cfg gws rd')"

section \<open>One loop iteration, read symbol by symbol\<close>

text \<open>
  What the loop body does after its conversions depends only on the values read and on
  the record stored for the symbol: the record it works on (the stored one, or the one
  it seeds), whether the current price improves on the extreme price, the extreme price
  it ends with, the stop level, the record it leaves (none after a trigger) and the
  events it emits.
\<close>

definition seeded :: "reading \<Rightarrow> risk_record option \<Rightarrow> risk_record" where
  "seeded v ro = (case ro of
       None \<Rightarrow> \<lparr>extreme_price = current v,
                 side = (if flt (Fin 0) (signed_qty v) then LONG else SHORT)\<rparr>
     | Some r \<Rightarrow> r)"

definition improves :: "reading \<Rightarrow> risk_record option \<Rightarrow> bool" where
  "improves v ro = (if flt (Fin 0) (signed_qty v) then flt (extreme_price (seeded v ro)) (current v)
                    else flt (current v) (extreme_price (seeded v ro)))"

definition tracked :: "reading \<Rightarrow> risk_record option \<Rightarrow> pyfloat" where
  "tracked v ro = (if improves v ro then current v else extreme_price (seeded v ro))"

definition level_of :: "risk_cfg \<Rightarrow> reading \<Rightarrow> risk_record option \<Rightarrow> stop_level" where
  "level_of cfg v ro =
     stop_levels cfg (flt (Fin 0) (signed_qty v)) (entry v) (tracked v ro) (current v)"

definition next_record :: "risk_cfg \<Rightarrow> reading \<Rightarrow> risk_record option \<Rightarrow> risk_record option" where
  "next_record cfg v ro =
     (if triggered (level_of cfg v ro) then None
      else Some ((seeded v ro)\<lparr>extreme_price := tracked v ro\<rparr>))"

definition step_events ::
  "risk_cfg \<Rightarrow> alpaca \<Rightarrow> string \<Rightarrow> reading \<Rightarrow> risk_record option \<Rightarrow> risk_event list" where
  "step_events cfg gw sy v ro =
     (if improves v ro then [NewExtreme sy (current v)] else []) @
     [StopLine sy (flt (Fin 0) (signed_qty v)) (current v) (tracked v ro)
        (final_stop (level_of cfg v ro))] @
     (if triggered (level_of cfg v ro)
      then [execute_close gw sy (fabs (signed_qty v)) (sell_side (level_of cfg v ro))
             (if feq (final_stop (level_of cfg v ro)) (trail_stop (level_of cfg v ro))
              then TRAIL else HARD)]
      else [])"

text \<open>The values the loop body reads from a position whose fields all convert.\<close>

definition readable :: "position \<Rightarrow> bool" where
  "readable p = (case read_position p of Inl e \<Rightarrow> False | Inr v \<Rightarrow> True)"

definition values_of :: "position \<Rightarrow> reading" where
  "values_of p =
     (case read_position p of
        Inl e \<Rightarrow> \<lparr>signed_qty = NaN, entry = NaN, current = NaN\<rparr>
      | Inr v \<Rightarrow> v)"

text \<open>The closing orders among the events, whatever became of their submission.\<close>

fun close_attempts :: "risk_event list \<Rightarrow> (market_order \<times> trigger_reason) list" where
  "close_attempts [] = []"
| "close_attempts (CloseSubmitted od why # es) = (od, why) # close_attempts es"
| "close_attempts (CloseFailed od why # es) = (od, why) # close_attempts es"
| "close_attempts (e # es) = close_attempts es"

text \<open>The records a symbol has along a list of stores.\<close>

fun records_of :: "string \<Rightarrow> risk_store list \<Rightarrow> risk_record list" where
  "records_of s [] = []"
| "records_of s (rd # rds) =
     (case rd s of None \<Rightarrow> records_of s rds | Some r \<Rightarrow> r # records_of s rds)"


text \<open>
  A record is no worse than an earlier one, for a direction, when it has the same side
  and an extreme price that is the same or strictly more favourable in that direction.
\<close>

definition no_worse :: "bool \<Rightarrow> risk_record \<Rightarrow> risk_record \<Rightarrow> bool" where
  "no_worse is_long r r' =
     (side r' = side r \<and>
      (extreme_price r' = extreme_price r \<or>
       (if is_long then flt (extreme_price r) (extreme_price r')
        else flt (extreme_price r') (extreme_price r))))"

section \<open>execution/alpaca\_trader.py\<close>

text \<open>
  The portfolio dictionary of \<open>get_live_portfolio\<close>: \<open>cash\<close>, \<open>positions\<close> (ticker to
  the \<open>long\<close> and \<open>short\<close> quantities) and \<open>equity\<close>. The integer \<open>0\<close> a quantity
  defaults to is the float zero: it is only compared with \<open>0\<close> and truncated.
\<close>

record holding =
  long :: pyfloat
  short :: pyfloat

record live_portfolio =
  cash :: pyfloat
  positions :: "string \<rightharpoonup> holding"
  equity :: pyfloat

text \<open>
  Lines 33-36: \<open>float(pos.qty)\<close> is evaluated for the side the position has, and the
  other side gets \<open>0\<close>.
\<close>

definition format_position :: "position \<Rightarrow> py_error + holding" where
  "format_position pos =
     and_then (py_float (qty pos)) (\<lambda>q.
       Inr \<lparr>long = (if pos_side pos = PosLong then q else Fin 0),
            short = (if pos_side pos = PosShort then q else Fin 0)\<rparr>)"

fun format_positions ::
  "position list \<Rightarrow> (string \<rightharpoonup> holding) \<Rightarrow> py_error + (string \<rightharpoonup> holding)" where
  "format_positions [] formatted = Inr formatted"
| "format_positions (pos # rest) formatted =
     and_then (format_position pos) (\<lambda>h.
       format_positions rest (formatted(symbol pos \<mapsto> h)))"

text \<open>
  \<open>get_live_portfolio\<close> has no \<open>try\<close>: a gateway call or a conversion that raises leaves
  it.
\<close>

definition get_live_portfolio :: "alpaca \<Rightarrow> py_error + live_portfolio" where
  "get_live_portfolio gw =
     (case get_account gw of
        None \<Rightarrow> Inl GatewayError
      | Some acct \<Rightarrow>
          (case get_all_positions gw of
             None \<Rightarrow> Inl GatewayError
           | Some ps \<Rightarrow>
               and_then (format_positions ps Map.empty) (\<lambda>formatted.
               and_then (py_float (acct_cash acct)) (\<lambda>c.
               and_then (py_float (acct_equity acct)) (\<lambda>e.
                 Inr \<lparr>cash = c, positions = formatted, equity = e\<rparr>)))))"

text \<open>
  \<open>get_realtime_price\<close>: any exception gives \<open>0.0\<close>. The literal \<open>0.02\<close> is the double
  nearest to it.
\<close>

definition get_realtime_price :: "alpaca \<Rightarrow> string \<Rightarrow> pyfloat" where
  "get_realtime_price gw ticker =
     (case latest gw ticker of
        None \<Rightarrow> Fin 0
      | Some (ask, last_price) \<Rightarrow>
          if flt (Fin 0) ask \<and> flt (Fin 0) last_price then
            (case fdiv (fabs (fsub ask last_price)) last_price of
               Inl e \<Rightarrow> Fin 0
             | Inr diff_pct \<Rightarrow>
                 if flt (round64 (2 / 100)) diff_pct then last_price
                 else ask)
          else if flt (Fin 0) ask then ask
          else if flt (Fin 0) last_price then last_price else Fin 0)"

text \<open>
  A decision as the producer supplies it. \<open>action\<close> and \<open>quantity\<close> are \<open>None\<close> when the
  key is absent (\<open>decision.get\<close> then gives \<open>""\<close> and \<open>0\<close>). An action is a string or
  something that has no \<open>upper\<close> method (\<open>None\<close>, a number). A quantity is an integer (or
  a string \<open>int(...)\<close> reads as that integer), a float, a string \<open>int(...)\<close> rejects
  (\<open>ValueError\<close>), or \<open>None\<close> or another object it rejects (\<open>TypeError\<close>).
\<close>

datatype action_value = ActionText string | NoText

datatype quantity_value = QtyInt int | QtyFloat pyfloat | QtyText | QtyNone

record decision =
  action :: "action_value option"
  quantity :: "quantity_value option"

fun py_int :: "quantity_value \<Rightarrow> py_error + int" where
  "py_int (QtyInt n) = Inr n"
| "py_int (QtyFloat x) = int_of_float x"
| "py_int QtyText = Inl ValueError"
| "py_int QtyNone = Inl TypeError"

text \<open>\<open>str.upper\<close> on ASCII text.\<close>

definition upper_char :: "char \<Rightarrow> char" where
  "upper_char c =
     (case map_of (zip ''abcdefghijklmnopqrstuvwxyz'' ''ABCDEFGHIJKLMNOPQRSTUVWXYZ'') c of
        None \<Rightarrow> c
      | Some u \<Rightarrow> u)"

definition py_upper :: "string \<Rightarrow> string" where
  "py_upper s = map upper_char s"

text \<open>Line 86, \<open>decision.get("action", "").upper()\<close>, and line 87, \<open>int(decision.get("quantity", 0))\<close>.\<close>

definition read_action :: "decision \<Rightarrow> py_error + string" where
  "read_action d =
     (case action d of
        None \<Rightarrow> Inr (py_upper [])
      | Some (ActionText a) \<Rightarrow> Inr (py_upper a)
      | Some NoText \<Rightarrow> Inl AttributeError)"

definition read_quantity :: "decision \<Rightarrow> py_error + int" where
  "read_quantity d = py_int (case quantity d of None \<Rightarrow> QtyInt 0 | Some v \<Rightarrow> v)"

text \<open>
  The four refusal texts of \<open>skip_reason\<close>: a short position is held (BUY), a long
  position is held (SHORT), no long position (SELL), no short position (COVER).
\<close>

datatype skip_reason = ShortHeld pyfloat | LongHeld pyfloat | NoLongPosition | NoShortPosition

text \<open>
  What \<open>execute_decisions\<close> prints and submits for a ticker: the HOLD line (line 91), a
  refusal (line 147), an order that was submitted (line 161) or whose submission raised
  (line 163); the action is carried along.
\<close>

datatype trade_event =
    Held string
  | Refused string string skip_reason
  | Submitted string market_order
  | SubmitFailed string market_order

text \<open>
  \<open>int(quantity * (1 - self.buffer_pct))\<close>: the integer is converted to a float,
  multiplied and truncated.
\<close>

definition scaled :: "pyfloat \<Rightarrow> int \<Rightarrow> py_error + int" where
  "scaled buffer_pct n =
     and_then (float_of_int n) (\<lambda>f. int_of_float (fmul f (fsub (Fin 1) buffer_pct)))"

text \<open>
  Lines 98-143: the safety check of one decision, giving \<open>side\<close>, \<open>skip_reason\<close> and
  the quantity; none of it stands inside a \<open>try\<close>. \<open>if rt_price:\<close> is true for a price
  other than 0.
\<close>

definition safety_check ::
  "pyfloat \<Rightarrow> alpaca \<Rightarrow> pyfloat \<Rightarrow> string \<Rightarrow> string \<Rightarrow> int \<Rightarrow> pyfloat \<Rightarrow> pyfloat
     \<Rightarrow> py_error + (order_side option \<times> skip_reason option \<times> int)" where
  "safety_check buffer_pct gw cash_now ticker act quantity0 long_qty short_qty =
     (if act = ''BUY'' then
        (let rt_price = get_realtime_price gw ticker
         in and_then
              (if truthy rt_price then
                 and_then (fdiv (fmul cash_now (fsub (Fin 1) buffer_pct)) rt_price) (\<lambda>room.
                 and_then (int_of_float room) (\<lambda>max_qty.
                   Inr (if quantity0 > max_qty then max_qty else quantity0)))
               else Inr quantity0)
              (\<lambda>quantity1.
                 if flt (Fin 0) short_qty then Inr (None, Some (ShortHeld short_qty), quantity1)
                 else and_then (scaled buffer_pct quantity1) (\<lambda>quantity2.
                        Inr (Some BUY, None, quantity2))))
      else if act = ''SHORT'' then
        (if flt (Fin 0) long_qty then Inr (None, Some (LongHeld long_qty), quantity0)
         else Inr (Some SELL, None, quantity0))
      else if act = ''SELL'' then
        (if fle long_qty (Fin 0) then Inr (None, Some NoLongPosition, quantity0)
         else and_then (int_of_float long_qty) (\<lambda>held.
                Inr (Some SELL, None, min quantity0 held)))
      else if act = ''COVER'' then
        (if fle short_qty (Fin 0) then Inr (None, Some NoShortPosition, quantity0)
         else and_then (int_of_float short_qty) (\<lambda>held.
              and_then (scaled buffer_pct (min quantity0 held)) (\<lambda>quantity2.
                Inr (Some BUY, None, quantity2))))
      else Inr (None, None, quantity0))"

text \<open>
  The body of the \<open>for ticker, decision in decisions.items()\<close> loop (lines 86-163).
  Only the submission stands inside a \<open>try\<close>.
\<close>

definition execute_decision ::
  "pyfloat \<Rightarrow> alpaca \<Rightarrow> live_portfolio \<Rightarrow> string \<times> decision \<Rightarrow> py_error + trade_event list" where
  "execute_decision buffer_pct gw pf item =
     (let ticker = fst item;
          d = snd item
      in and_then (read_action d) (\<lambda>act.
         and_then (read_quantity d) (\<lambda>quantity0.
           if quantity0 \<le> 0 \<or> act = ''HOLD'' then Inr [Held ticker]
           else
             (let long_qty = (case positions pf ticker of None \<Rightarrow> Fin 0 | Some h \<Rightarrow> long h);
                  short_qty = (case positions pf ticker of None \<Rightarrow> Fin 0 | Some h \<Rightarrow> short h)
              in and_then
                   (safety_check buffer_pct gw (cash pf) ticker act quantity0 long_qty short_qty)
                   (\<lambda>checked.
                      case checked of
                        (sd, Some why, quantity1) \<Rightarrow> Inr [Refused ticker act why]
                      | (None, None, quantity1) \<Rightarrow> Inr []
                      | (Some s, None, quantity1) \<Rightarrow>
                          (let order_data = \<lparr>order_symbol = ticker, order_qty = Shares quantity1,
                                              order_side = s, order_tif = DAY\<rparr>
                           in Inr [if submit_order gw order_data then Submitted act order_data
                                   else SubmitFailed act order_data]))))))"

text \<open>
  \<open>execute_decisions\<close>: the portfolio is read once, then the decisions are walked in the
  dictionary's order. The result keeps what was printed and submitted and the exception
  that left the method, if any.
\<close>

record batch_result =
  trade_log :: "trade_event list"
  escaped :: "py_error option"

fun decisions_loop ::
  "pyfloat \<Rightarrow> alpaca \<Rightarrow> live_portfolio \<Rightarrow> (string \<times> decision) list \<Rightarrow> trade_event list \<Rightarrow> batch_result" where
  "decisions_loop buffer_pct gw pf [] printed = \<lparr>trade_log = printed, escaped = None\<rparr>"
| "decisions_loop buffer_pct gw pf (item # rest) printed =
     (case execute_decision buffer_pct gw pf item of
        Inl e \<Rightarrow> \<lparr>trade_log = printed, escaped = Some e\<rparr>
      | Inr evs \<Rightarrow> decisions_loop buffer_pct gw pf rest (printed @ evs))"

definition execute_decisions :: "pyfloat \<Rightarrow> alpaca \<Rightarrow> (string \<times> decision) list \<Rightarrow> batch_result" where
  "execute_decisions buffer_pct gw decisions =
     (case get_live_portfolio gw of
        Inl e \<Rightarrow> \<lparr>trade_log = [], escaped = Some e\<rparr>
      | Inr pf \<Rightarrow> decisions_loop buffer_pct gw pf decisions [])"

section \<open>Notions used to state the properties of the trader\<close>

text \<open>
  Whether the loop body returns for an item, and what it prints and submits when it
  does.
\<close>

definition returns :: "pyfloat \<Rightarrow> alpaca \<Rightarrow> live_portfolio \<Rightarrow> string \<times> decision \<Rightarrow> bool" where
  "returns buffer_pct gw pf item =
     (case execute_decision buffer_pct gw pf item of Inl e \<Rightarrow> False | Inr evs \<Rightarrow> True)"

definition item_events ::
  "pyfloat \<Rightarrow> alpaca \<Rightarrow> live_portfolio \<Rightarrow> string \<times> decision \<Rightarrow> trade_event list" where
  "item_events buffer_pct gw pf item =
     (case execute_decision buffer_pct gw pf item of Inl e \<Rightarrow> [] | Inr evs \<Rightarrow> evs)"

text \<open>The orders among the events of the trader, whatever became of their submission.\<close>

fun orders_tried :: "trade_event list \<Rightarrow> market_order list" where
  "orders_tried [] = []"
| "orders_tried (Submitted act od # es) = od # orders_tried es"
| "orders_tried (SubmitFailed act od # es) = od # orders_tried es"
| "orders_tried (e # es) = orders_tried es"

section \<open>Concrete inputs\<close>

text \<open>
  The constructor defaults \<open>trailing_pct=0.05\<close>, \<open>initial_stop_loss_pct=0.08\<close> and
  \<open>buffer_pct=0.05\<close>, each the double nearest to the literal; gateways whose position
  read returns a given list and whose order submission returns for every order, raises
  for every order, or raises for the orders of one symbol; the store that holds one
  record and the state a pass starts from; a quote for one ticker; a decision with a
  string action and an integer quantity.
\<close>

definition default_cfg :: risk_cfg where
  "default_cfg = \<lparr>trailing_pct = round64 (5 / 100), initial_stop_loss_pct = round64 (8 / 100)\<rparr>"

definition default_buffer :: pyfloat where
  "default_buffer = round64 (5 / 100)"

definition accept_all :: "market_order \<Rightarrow> bool" where
  "accept_all order_data = True"

definition reject_all :: "market_order \<Rightarrow> bool" where
  "reject_all order_data = False"

definition reject_symbol :: "string \<Rightarrow> market_order \<Rightarrow> bool" where
  "reject_symbol t order_data = (order_symbol order_data \<noteq> t)"

definition no_quote :: "string \<Rightarrow> (pyfloat \<times> pyfloat) option" where
  "no_quote ticker = None"

definition quote_of :: "string \<Rightarrow> pyfloat \<Rightarrow> pyfloat \<Rightarrow> string \<Rightarrow> (pyfloat \<times> pyfloat) option" where
  "quote_of t ask last_price ticker = (if ticker = t then Some (ask, last_price) else None)"

definition holding_gateway :: "position list \<Rightarrow> alpaca" where
  "holding_gateway ps =
     \<lparr>get_all_positions = Some ps, get_account = None, latest = no_quote, submit_order = accept_all\<rparr>"

definition failing_gateway :: "position list \<Rightarrow> alpaca" where
  "failing_gateway ps =
     \<lparr>get_all_positions = Some ps, get_account = None, latest = no_quote, submit_order = reject_all\<rparr>"

definition trading_gateway ::
  "real \<Rightarrow> position list \<Rightarrow> (string \<Rightarrow> (pyfloat \<times> pyfloat) option) \<Rightarrow> alpaca" where
  "trading_gateway c ps quotes =
     \<lparr>get_all_positions = Some ps,
      get_account = Some \<lparr>acct_cash = Reads (round64 c), acct_equity = Reads (round64 c)\<rparr>,
      latest = quotes, submit_order = accept_all\<rparr>"

definition one_record :: "string \<Rightarrow> real \<Rightarrow> risk_side \<Rightarrow> risk_store" where
  "one_record sy e sd = Map.empty(sy \<mapsto> \<lparr>extreme_price = Fin e, side = sd\<rparr>)"

definition fresh_state :: "risk_store \<Rightarrow> pass_state" where
  "fresh_state rd =
     \<lparr>risk_data = rd, current_symbols = [], events = [], saved = None, raised = None\<rparr>"

definition decide :: "string \<Rightarrow> int \<Rightarrow> decision" where
  "decide a n = \<lparr>action = Some (ActionText a), quantity = Some (QtyInt n)\<rparr>"

text \<open>
  Positions, with prices that are doubles: a position of a symbol with a signed
  quantity, an entry price and a current price; those of Scenario 1 and Scenario 2, ten
  shares each; AAPL held short at 100; a long AAPL whose entry price is 0; a long AAPL
  whose prices are negative; a long MSFT far from its stops; a long AAPL whose current
  price is \<open>None\<close>.
\<close>

definition held :: "string \<Rightarrow> real \<Rightarrow> real \<Rightarrow> real \<Rightarrow> position" where
  "held sy q e c =
     \<lparr>symbol = sy, qty = Reads (Fin q), pos_side = (if 0 < q then PosLong else PosShort),
      avg_entry_price = Reads (Fin e), current_price = Reads (Fin c)\<rparr>"

definition scenario1_position :: position where
  "scenario1_position = held ''AAPL'' 10 100 104"

definition scenario2_position :: position where
  "scenario2_position = held ''TSLA'' (- 10) 200 220"

definition flipped_position :: position where
  "flipped_position = held ''AAPL'' (- 5) 100 100"

definition zero_entry_position :: position where
  "zero_entry_position = held ''AAPL'' 10 0 104"

definition negative_price_position :: position where
  "negative_price_position = held ''AAPL'' 10 (- 1) (- 5)"


definition unpriced_position :: position where
  "unpriced_position = (held ''AAPL'' 10 100 104)\<lparr>current_price := NoneValue\<rparr>"

section \<open>Floats\<close>

lemma halvings_numeral:
  "halvings (numeral k) x = (if x < 2 then 0 else Suc (halvings (pred_numeral k) (x / 2)))"
  by (simp add: numeral_eq_Suc)

lemma doublings_numeral:
  "doublings (numeral k) x = (if 1 \<le> x then 0 else Suc (doublings (pred_numeral k) (2 * x)))"
  by (simp add: numeral_eq_Suc)

lemmas float_eval = round64_def binade_def pow2_def rhe_def halvings_numeral doublings_numeral
  fsub_def Let_def

lemma flt_irrefl: "\<not> flt x x"
  by (cases x) simp_all

lemma flt_trans: "flt x y \<Longrightarrow> flt y z \<Longrightarrow> flt x z"
  by (cases x; cases y; cases z) simp_all

lemma flt_asym: "flt x y \<Longrightarrow> \<not> flt y x"
  by (cases x; cases y) simp_all

text \<open>
  Rounding is monotone and leaves a double as it is; so a number that is not negative
  and not above a double rounds to a double not above it.
\<close>

lemma pow2_powi: "pow2 e = 2 powi e"
  by (simp add: pow2_def power_int_def field_simps)

lemma pow2_pos: "0 < pow2 e"
  by (simp add: pow2_powi)

lemma pow2_add: "pow2 (a + b) = pow2 a * pow2 b"
  by (simp add: pow2_powi power_int_add)

lemma pow2_mono: "a \<le> b \<Longrightarrow> pow2 a \<le> pow2 b"
  by (simp add: pow2_powi power_int_increasing)

lemma pow2_nat: "pow2 (int n) = 2 ^ n"
  by (simp add: pow2_def)

lemma pow2_neg_nat: "pow2 (- int n) = 1 / 2 ^ n"
  by (simp add: pow2_powi power_int_minus inverse_eq_divide)

lemma rhe_int: "rhe (of_int n) = n"
  by (simp add: rhe_def)

lemma rhe_bounds: "\<lfloor>y\<rfloor> \<le> rhe y" "rhe y \<le> \<lfloor>y\<rfloor> + 1"
  by (simp_all add: rhe_def Let_def)

lemma rhe_mono: assumes "x \<le> y" shows "rhe x \<le> rhe y"
proof (cases "\<lfloor>x\<rfloor> = \<lfloor>y\<rfloor>")
  case True
  with assms show ?thesis by (auto simp: rhe_def Let_def)
next
  case False
  with assms have "\<lfloor>x\<rfloor> < \<lfloor>y\<rfloor>" by (simp add: floor_mono order_neq_le_trans)
  then have "\<lfloor>x\<rfloor> + 1 \<le> \<lfloor>y\<rfloor>" by simp
  with rhe_bounds(2) [of x] rhe_bounds(1) [of y] show ?thesis by linarith
qed

lemma rhe_le_int: "y \<le> of_int n \<Longrightarrow> rhe y \<le> n"
  using rhe_mono [of y "of_int n"] by (simp add: rhe_int)

lemma rhe_ge_int: "of_int n \<le> y \<Longrightarrow> n \<le> rhe y"
  using rhe_mono [of "of_int n" y] by (simp add: rhe_int)

lemma halvings_le: "halvings n x \<le> n"
  by (induction n arbitrary: x) simp_all

lemma halvings_lower: "1 \<le> x \<Longrightarrow> 2 ^ halvings n x \<le> x"
proof (induction n arbitrary: x)
  case 0
  then show ?case by simp
next
  case (Suc n)
  show ?case
  proof (cases "x < 2")
    case True
    with Suc.prems show ?thesis by simp
  next
    case False
    then have "1 \<le> x / 2" by simp
    then have "2 ^ halvings n (x / 2) \<le> x / 2" by (rule Suc.IH)
    with False show ?thesis by simp
  qed
qed

lemma halvings_upper: "halvings n x < n \<Longrightarrow> x < 2 ^ Suc (halvings n x)"
proof (induction n arbitrary: x)
  case 0
  then show ?case by simp
next
  case (Suc n)
  show ?case
  proof (cases "x < 2")
    case True
    then show ?thesis by simp
  next
    case False
    with Suc.prems have "halvings n (x / 2) < n" by simp
    then have "x / 2 < 2 ^ Suc (halvings n (x / 2))" by (rule Suc.IH)
    with False show ?thesis by simp
  qed
qed

lemma doublings_le: "doublings n x \<le> n"
  by (induction n arbitrary: x) simp_all

lemma doublings_upper: "x < 1 \<Longrightarrow> 2 ^ doublings n x * x < 2"
proof (induction n arbitrary: x)
  case 0
  then show ?case by simp
next
  case (Suc n)
  show ?case
  proof (cases "2 * x < 1")
    case True
    then have "2 ^ doublings n (2 * x) * (2 * x) < 2" by (rule Suc.IH)
    with Suc.prems show ?thesis by (simp add: mult.assoc)
  next
    case False
    then have "doublings n (2 * x) = 0" by (cases n) simp_all
    with Suc.prems show ?thesis by simp
  qed
qed

lemma doublings_lower: "doublings n x < n \<Longrightarrow> 1 \<le> 2 ^ doublings n x * x"
proof (induction n arbitrary: x)
  case 0
  then show ?case by simp
next
  case (Suc n)
  show ?case
  proof (cases "1 \<le> x")
    case True
    then show ?thesis by simp
  next
    case False
    with Suc.prems have "doublings n (2 * x) < n" by simp
    then have "1 \<le> 2 ^ doublings n (2 * x) * (2 * x)" by (rule Suc.IH)
    with False show ?thesis by (simp add: mult.assoc)
  qed
qed

lemma binade_range: "- 1022 \<le> binade x" "binade x \<le> 1024"
  using halvings_le [of 1024 x] doublings_le [of 1022 x] by (simp_all add: binade_def)

lemma binade_upper:
  assumes "binade x \<le> 1023" shows "x < pow2 (binade x + 1)"
proof (cases "1 \<le> x")
  case True
  with assms have "halvings 1024 x < 1024" by (simp add: binade_def)
  then have "x < 2 ^ Suc (halvings 1024 x)" by (rule halvings_upper)
  also have "\<dots> = pow2 (int (Suc (halvings 1024 x)))" by (simp only: pow2_nat)
  finally show ?thesis using True by (simp add: binade_def add.commute)
next
  case False
  then have x: "x < 1" by simp
  let ?d = "doublings 1022 x"
  have d: "0 < ?d" using x by (simp add: numeral_eq_Suc)
  have "2 ^ ?d * x < 2" using x by (rule doublings_upper)
  then have "x < 2 / 2 ^ ?d" by (simp add: field_simps)
  also have "\<dots> = pow2 (1 + (- int ?d))" unfolding pow2_add pow2_neg_nat by (simp add: pow2_def)
  finally show ?thesis using False by (simp add: binade_def add.commute)
qed

lemma binade_lower:
  assumes "- 1021 \<le> binade x" shows "pow2 (binade x) \<le> x"
proof (cases "1 \<le> x")
  case True
  then have "2 ^ halvings 1024 x \<le> x" by (rule halvings_lower)
  with True show ?thesis by (simp add: binade_def pow2_nat)
next
  case False
  let ?d = "doublings 1022 x"
  from False assms have "?d < 1022" by (simp add: binade_def)
  then have "1 \<le> 2 ^ ?d * x" by (rule doublings_lower)
  then have "1 / 2 ^ ?d \<le> x" by (simp add: field_simps)
  with False show ?thesis by (simp add: binade_def pow2_neg_nat)
qed

lemma binade_unique:
  assumes "e \<le> 1023" and "x < pow2 (e + 1)" and "e = - 1022 \<or> pow2 e \<le> x"
    and "- 1022 \<le> e"
  shows "binade x = e"
proof (rule antisym)
  show "binade x \<le> e"
  proof (rule ccontr)
    assume "\<not> binade x \<le> e"
    then have l: "e + 1 \<le> binade x" by simp
    with assms(4) have "- 1021 \<le> binade x" by simp
    then have "pow2 (binade x) \<le> x" by (rule binade_lower)
    moreover have "pow2 (e + 1) \<le> pow2 (binade x)" using l by (rule pow2_mono)
    ultimately show False using assms(2) by simp
  qed
  show "e \<le> binade x"
  proof (rule ccontr)
    assume "\<not> e \<le> binade x"
    then have l: "binade x + 1 \<le> e" by simp
    with assms(1) have "binade x \<le> 1023" by simp
    then have "x < pow2 (binade x + 1)" by (rule binade_upper)
    moreover have "pow2 (binade x + 1) \<le> pow2 e" using l by (rule pow2_mono)
    moreover have "pow2 e \<le> x" using assms(3) l binade_range(1) [of x] by auto
    ultimately show False by simp
  qed
qed

lemma binade_mono: assumes "x \<le> y" shows "binade x \<le> binade y"
proof (rule ccontr)
  assume "\<not> binade x \<le> binade y"
  then have l: "binade y + 1 \<le> binade x" by simp
  with binade_range(2) [of x] have "binade y \<le> 1023" by simp
  then have "y < pow2 (binade y + 1)" by (rule binade_upper)
  moreover have "pow2 (binade y + 1) \<le> pow2 (binade x)" using l by (rule pow2_mono)
  moreover have "pow2 (binade x) \<le> x"
    using l binade_range(1) [of y] by (intro binade_lower) simp
  ultimately show False using assms by simp
qed

lemma pow2_53: "pow2 (e + 1) = 2 ^ 53 * pow2 (e - 52)"
proof -
  have "pow2 (e + 1) = pow2 (53 + (e - 52))" by (rule arg_cong [where f = pow2]) simp
  also have "\<dots> = pow2 53 * pow2 (e - 52)" by (rule pow2_add)
  finally show ?thesis by (simp add: pow2_def)
qed

lemma pow2_52: "pow2 e = 2 ^ 52 * pow2 (e - 52)"
proof -
  have "pow2 e = pow2 (52 + (e - 52))" by (rule arg_cong [where f = pow2]) simp
  also have "\<dots> = pow2 52 * pow2 (e - 52)" by (rule pow2_add)
  finally show ?thesis by (simp add: pow2_def)
qed

lemma grid_nonneg:
  assumes "0 \<le> x" shows "0 \<le> real_of_int (rhe (x / pow2 e)) * pow2 e"
proof -
  have "of_int 0 \<le> x / pow2 e" using assms pow2_pos [of e] by simp
  then have "0 \<le> rhe (x / pow2 e)" by (rule rhe_ge_int)
  then show ?thesis using pow2_pos [of e] by simp
qed

lemma grid_upper:
  assumes "binade x \<le> 1023"
  shows "real_of_int (rhe (x / pow2 (binade x - 52))) * pow2 (binade x - 52) \<le> pow2 (binade x + 1)"
    and "rhe (x / pow2 (binade x - 52)) \<le> 2 ^ 53"
proof -
  let ?u = "pow2 (binade x - 52)"
  have u: "0 < ?u" by (rule pow2_pos)
  have "x < pow2 (binade x + 1)" using assms by (rule binade_upper)
  then have "x < 2 ^ 53 * ?u" by (simp only: pow2_53)
  then have "x / ?u \<le> 2 ^ 53" using u by (simp add: field_simps)
  then have "x / ?u \<le> of_int (2 ^ 53)" by simp
  then show k: "rhe (x / ?u) \<le> 2 ^ 53" by (rule rhe_le_int)
  then have "real_of_int (rhe (x / ?u)) \<le> real_of_int (2 ^ 53)" by (simp only: of_int_le_iff)
  then have "real_of_int (rhe (x / ?u)) * ?u \<le> 2 ^ 53 * ?u" using u by simp
  then show "real_of_int (rhe (x / ?u)) * ?u \<le> pow2 (binade x + 1)" by (simp only: pow2_53)
qed

lemma grid_lower:
  assumes "- 1021 \<le> binade x"
  shows "pow2 (binade x) \<le> real_of_int (rhe (x / pow2 (binade x - 52))) * pow2 (binade x - 52)"
    and "2 ^ 52 \<le> rhe (x / pow2 (binade x - 52))"
proof -
  let ?u = "pow2 (binade x - 52)"
  have u: "0 < ?u" by (rule pow2_pos)
  have "pow2 (binade x) \<le> x" using assms by (rule binade_lower)
  then have "2 ^ 52 * ?u \<le> x" by (simp only: pow2_52 [symmetric])
  then have "2 ^ 52 \<le> x / ?u" using u by (simp add: field_simps)
  then have "of_int (2 ^ 52) \<le> x / ?u" by simp
  then show k: "2 ^ 52 \<le> rhe (x / ?u)" by (rule rhe_ge_int)
  then have "real_of_int (2 ^ 52) \<le> real_of_int (rhe (x / ?u))" by (simp only: of_int_le_iff)
  then have "2 ^ 52 * ?u \<le> real_of_int (rhe (x / ?u)) * ?u" using u by simp
  then show "pow2 (binade x) \<le> real_of_int (rhe (x / ?u)) * ?u" by (simp only: pow2_52 [symmetric])
qed

lemma grid_mono:
  assumes "x \<le> y"
  shows "real_of_int (rhe (x / pow2 (binade x - 52))) * pow2 (binade x - 52) \<le>
         real_of_int (rhe (y / pow2 (binade y - 52))) * pow2 (binade y - 52)"
proof (cases "binade x = binade y")
  case True
  let ?u = "pow2 (binade y - 52)"
  have u: "0 < ?u" by (rule pow2_pos)
  have "x / ?u \<le> y / ?u" using assms u by (simp add: divide_right_mono)
  then have "rhe (x / ?u) \<le> rhe (y / ?u)" by (rule rhe_mono)
  then have "real_of_int (rhe (x / ?u)) * ?u \<le> real_of_int (rhe (y / ?u)) * ?u"
    using u by simp
  then show ?thesis unfolding True .
next
  case False
  with binade_mono [OF assms] have l: "binade x + 1 \<le> binade y" by simp
  with binade_range(2) [of y] have "binade x \<le> 1023" by simp
  then have "real_of_int (rhe (x / pow2 (binade x - 52))) * pow2 (binade x - 52) \<le>
             pow2 (binade x + 1)" by (rule grid_upper)
  also have "\<dots> \<le> pow2 (binade y)" using l by (rule pow2_mono)
  also have "\<dots> \<le> real_of_int (rhe (y / pow2 (binade y - 52))) * pow2 (binade y - 52)"
    using l binade_range(1) [of x] by (intro grid_lower) simp
  finally show ?thesis .
qed

lemma round64_pos:
  assumes "0 < x"
  shows "round64 x =
     (if 2 ^ 1024 \<le> real_of_int (rhe (x / pow2 (binade x - 52))) * pow2 (binade x - 52)
      then PInf
      else Fin (real_of_int (rhe (x / pow2 (binade x - 52))) * pow2 (binade x - 52)))"
proof -
  have "0 \<le> real_of_int (rhe (x / pow2 (binade x - 52))) * pow2 (binade x - 52)"
    using assms by (intro grid_nonneg) simp
  then have "\<bar>real_of_int (rhe (x / pow2 (binade x - 52))) * pow2 (binade x - 52)\<bar> =
             real_of_int (rhe (x / pow2 (binade x - 52))) * pow2 (binade x - 52)"
    by (rule abs_of_nonneg)
  moreover have "\<bar>x\<bar> = x" using assms by simp
  ultimately show ?thesis using assms by (simp add: round64_def Let_def)
qed

lemma round64_finite:
  assumes "0 < x" and "round64 x = Fin r"
  shows "r = real_of_int (rhe (x / pow2 (binade x - 52))) * pow2 (binade x - 52)"
    and "r < 2 ^ 1024" and "0 \<le> r"
proof -
  from assms show r: "r = real_of_int (rhe (x / pow2 (binade x - 52))) * pow2 (binade x - 52)"
    by (simp add: round64_pos split: if_splits)
  from assms show "r < 2 ^ 1024" by (simp add: round64_pos split: if_splits)
  show "0 \<le> r" unfolding r using assms(1) by (intro grid_nonneg) simp
qed

lemma pow2_1024: "pow2 1024 = 2 ^ 1024"
  by (simp add: pow2_def)

lemma grid_fixed:
  assumes "0 < x" and "round64 x = Fin r" and "0 < r"
  shows "real_of_int (rhe (r / pow2 (binade r - 52))) * pow2 (binade r - 52) = r"
proof -
  let ?e = "binade x"
  let ?u = "pow2 (?e - 52)"
  let ?k = "rhe (x / ?u)"
  have u: "0 < ?u" by (rule pow2_pos)
  note f = round64_finite [OF assms(1,2)]
  have r: "r = real_of_int ?k * ?u" by (rule f(1))
  have e: "?e \<le> 1023"
  proof (rule ccontr)
    assume "\<not> ?e \<le> 1023"
    then have "?e = 1024" using binade_range(2) [of x] by simp
    moreover have "pow2 ?e \<le> real_of_int ?k * ?u"
      using \<open>\<not> ?e \<le> 1023\<close> by (intro grid_lower) simp
    ultimately show False using f(2) r by (simp add: pow2_1024)
  qed
  have k53: "?k \<le> 2 ^ 53" using e by (rule grid_upper)
  have kpos: "0 < ?k"
  proof (rule ccontr)
    assume "\<not> 0 < ?k"
    then have "real_of_int ?k \<le> 0" by simp
    then have "real_of_int ?k * ?u \<le> 0" using u by (simp add: mult_le_0_iff)
    with assms(3) r show False by simp
  qed
  show ?thesis
  proof (cases "?k = 2 ^ 53")
    case True
    then have "real_of_int ?k = 2 ^ 53" by simp
    then have rp: "r = pow2 (?e + 1)" unfolding r by (simp only: pow2_53)
    have e2: "?e + 1 \<le> 1023"
    proof (rule ccontr)
      assume "\<not> ?e + 1 \<le> 1023"
      then have "1024 \<le> ?e + 1" by simp
      then have "pow2 1024 \<le> pow2 (?e + 1)" by (rule pow2_mono)
      with f(2) rp show False by (simp add: pow2_1024)
    qed
    have lt: "pow2 (?e + 1) < pow2 (?e + 1 + 1)"
      by (simp add: pow2_powi power_int_strict_increasing)
    have e3: "- 1022 \<le> ?e + 1" using binade_range(1) [of x] by linarith
    have lo: "?e + 1 = - 1022 \<or> pow2 (?e + 1) \<le> pow2 (?e + 1)" by simp
    have "binade (pow2 (?e + 1)) = ?e + 1" using e2 lt lo e3 by (rule binade_unique)
    then have b: "binade r = ?e + 1" unfolding rp .
    have "r / pow2 (?e + 1 - 52) = 2 ^ 52"
      unfolding rp using pow2_pos [of "?e + 1 - 52"] by (simp add: pow2_52 [of "?e + 1"])
    then have "r / pow2 (?e + 1 - 52) = of_int (2 ^ 52)" by simp
    then have "rhe (r / pow2 (?e + 1 - 52)) = 2 ^ 52" by (simp only: rhe_int)
    then have "real_of_int (rhe (r / pow2 (?e + 1 - 52))) * pow2 (?e + 1 - 52) =
               2 ^ 52 * pow2 (?e + 1 - 52)" by simp
    also have "\<dots> = pow2 (?e + 1)" by (simp only: pow2_52 [symmetric])
    finally have "real_of_int (rhe (r / pow2 (?e + 1 - 52))) * pow2 (?e + 1 - 52) = r"
      using rp by simp
    then show ?thesis unfolding b .
  next
    case False
    with k53 have "?k < 2 ^ 53" by simp
    then have "real_of_int ?k < real_of_int (2 ^ 53)" by (simp only: of_int_less_iff)
    then have "real_of_int ?k * ?u < 2 ^ 53 * ?u" using u by simp
    then have up: "r < pow2 (?e + 1)" unfolding r by (simp only: pow2_53)
    have lo: "?e = - 1022 \<or> pow2 ?e \<le> r"
    proof (cases "?e = - 1022")
      case True
      then show ?thesis ..
    next
      case F: False
      with binade_range(1) [of x] have "- 1021 \<le> ?e" by simp
      then have "pow2 ?e \<le> real_of_int ?k * ?u" by (rule grid_lower)
      then show ?thesis unfolding r ..
    qed
    have b: "binade r = ?e" using e up lo binade_range(1) by (rule binade_unique)
    have "r / ?u = of_int ?k" unfolding r using u by simp
    then have "rhe (r / ?u) = ?k" by (simp only: rhe_int)
    then show ?thesis unfolding b by (simp add: r)
  qed
qed

lemma round64_fixed:
  assumes "0 \<le> x" and "round64 x = Fin r"
  shows "round64 r = Fin r \<and> 0 \<le> r"
proof (cases "x = 0")
  case True
  with assms(2) show ?thesis by (simp add: round64_def)
next
  case False
  with assms(1) have x: "0 < x" by simp
  note f = round64_finite [OF x assms(2)]
  show ?thesis
  proof (cases "r = 0")
    case True
    then show ?thesis by (simp add: round64_def)
  next
    case F: False
    with f(3) have r: "0 < r" by simp
    have "real_of_int (rhe (r / pow2 (binade r - 52))) * pow2 (binade r - 52) = r"
      using x assms(2) r by (rule grid_fixed)
    with f(2) f(3) show ?thesis by (simp add: round64_pos [OF r])
  qed
qed

lemma round64_below:
  assumes "0 \<le> x" and "x \<le> r" and "0 \<le> z" and "round64 z = Fin r"
  shows "\<exists>rx. round64 x = Fin rx \<and> 0 \<le> rx \<and> rx \<le> r"
proof (cases "x = 0")
  case True
  with assms(1,2) show ?thesis by (simp add: round64_def)
next
  case False
  with assms(1) have x: "0 < x" by simp
  with assms(2) have r: "0 < r" by simp
  have fx: "round64 r = Fin r" using assms(3,4) round64_fixed by blast
  note f = round64_finite [OF r fx]
  have m: "real_of_int (rhe (x / pow2 (binade x - 52))) * pow2 (binade x - 52) \<le>
           real_of_int (rhe (r / pow2 (binade r - 52))) * pow2 (binade r - 52)"
    using assms(2) by (rule grid_mono)
  then have le: "real_of_int (rhe (x / pow2 (binade x - 52))) * pow2 (binade x - 52) \<le> r"
    using f(1) by simp
  have nn: "0 \<le> real_of_int (rhe (x / pow2 (binade x - 52))) * pow2 (binade x - 52)"
    using assms(1) by (rule grid_nonneg)
  from le f(2) have "round64 x = Fin (real_of_int (rhe (x / pow2 (binade x - 52))) * pow2 (binade x - 52))"
    by (simp add: round64_pos [OF x])
  with le nn show ?thesis by blast
qed

lemma round64_one: "round64 1 = Fin 1"
  by (simp add: round64_def binade_def pow2_def rhe_def numeral_eq_Suc Let_def)

lemma round64_nonneg_cases:
  assumes "0 \<le> x"
  shows "round64 x = PInf \<or> (\<exists>r. round64 x = Fin r \<and> 0 \<le> r)"
proof (cases "x = 0")
  case True
  then show ?thesis by (simp add: round64_def)
next
  case False
  with assms have x: "0 < x" by simp
  have "0 \<le> real_of_int (rhe (x / pow2 (binade x - 52))) * pow2 (binade x - 52)"
    using assms by (rule grid_nonneg)
  then show ?thesis by (simp add: round64_pos [OF x])
qed

section \<open>The loop body and the loop of the risk manager\<close>

lemma readable_values: "readable p \<Longrightarrow> read_position p = Inr (values_of p)"
  by (simp add: readable_def values_of_def split: sum.splits)

lemma read_values: "read_position p = Inr v \<Longrightarrow> readable p \<and> values_of p = v"
  by (simp add: readable_def values_of_def)

lemma unreadable_error: "\<not> readable p \<Longrightarrow> \<exists>e. read_position p = Inl e"
  by (simp add: readable_def split: sum.splits)

lemma monitor_position_unread:
  "read_position p = Inl e \<Longrightarrow>
   monitor_position cfg gw st p =
     st\<lparr>current_symbols := current_symbols st @ [symbol p], raised := Some e\<rparr>"
  by (simp add: monitor_position_def Let_def)

lemma monitor_position_read:
  assumes v: "read_position p = Inr v"
  shows "monitor_position cfg gw st p =
     st\<lparr>risk_data := (risk_data st)(symbol p := next_record cfg v (risk_data st (symbol p))),
        current_symbols := current_symbols st @ [symbol p],
        events := events st @ step_events cfg gw (symbol p) v (risk_data st (symbol p))\<rparr>"
proof (cases "risk_data st (symbol p)")
  case None
  then have nd: "symbol p \<notin> dom (risk_data st)" by blast
  with None v show ?thesis
    by (cases "flt (Fin 0) (signed_qty v)")
       (simp_all add: monitor_position_def seeded_def improves_def tracked_def level_of_def
          next_record_def step_events_def flt_irrefl Let_def)
next
  case (Some r)
  then have d: "symbol p \<in> dom (risk_data st)" by blast
  have u: "(risk_data st)(symbol p \<mapsto> r) = risk_data st" using Some by (simp add: map_upd_triv)
  have s: "seeded v (Some r) = r" by (simp add: seeded_def)
  show ?thesis
  proof (cases "improves v (Some r)")
    case True
    with Some d s v show ?thesis
      by (cases "flt (Fin 0) (signed_qty v)")
         (simp_all add: monitor_position_def improves_def tracked_def level_of_def
            next_record_def step_events_def Let_def)
  next
    case False
    with Some d u s v show ?thesis
      by (cases "flt (Fin 0) (signed_qty v)")
         (simp_all add: monitor_position_def improves_def tracked_def level_of_def
            next_record_def step_events_def Let_def)
  qed
qed

lemma monitor_position_eq:
  "readable p \<Longrightarrow>
   monitor_position cfg gw st p =
     st\<lparr>risk_data := (risk_data st)
          (symbol p := next_record cfg (values_of p) (risk_data st (symbol p))),
        current_symbols := current_symbols st @ [symbol p],
        events := events st @ step_events cfg gw (symbol p) (values_of p) (risk_data st (symbol p))\<rparr>"
  by (rule monitor_position_read) (rule readable_values)

lemma monitor_position_raised:
  "readable p \<Longrightarrow> raised (monitor_position cfg gw st p) = raised st"
  by (simp add: monitor_position_eq)

lemma monitor_position_saved [simp]: "saved (monitor_position cfg gw st p) = saved st"
  by (cases "read_position p") (simp_all add: monitor_position_unread monitor_position_read)

lemma monitor_position_symbols [simp]:
  "current_symbols (monitor_position cfg gw st p) = current_symbols st @ [symbol p]"
  by (cases "read_position p") (simp_all add: monitor_position_unread monitor_position_read)

lemma monitor_position_events:
  "readable p \<Longrightarrow>
   events (monitor_position cfg gw st p) =
     events st @ step_events cfg gw (symbol p) (values_of p) (risk_data st (symbol p))"
  by (simp add: monitor_position_eq)

lemma monitor_position_store:
  "readable p \<Longrightarrow>
   risk_data (monitor_position cfg gw st p) =
     (risk_data st)(symbol p := next_record cfg (values_of p) (risk_data st (symbol p)))"
  by (simp add: monitor_position_eq)

lemma monitor_position_other:
  "s \<noteq> symbol p \<Longrightarrow> risk_data (monitor_position cfg gw st p) s = risk_data st s"
  by (cases "read_position p") (simp_all add: monitor_position_unread monitor_position_read)

lemma monitor_loop_raised:
  "\<forall>p \<in> set ps. readable p \<Longrightarrow> raised (monitor_loop cfg gw ps st) = raised st"
  by (induction ps arbitrary: st) (simp_all add: Let_def monitor_position_raised)

lemma monitor_loop_saved [simp]: "saved (monitor_loop cfg gw ps st) = saved st"
  by (induction ps arbitrary: st) (simp_all add: Let_def)

lemma monitor_loop_symbols:
  "\<forall>p \<in> set ps. readable p \<Longrightarrow> raised st = None \<Longrightarrow>
   current_symbols (monitor_loop cfg gw ps st) = current_symbols st @ map symbol ps"
  by (induction ps arbitrary: st) (simp_all add: Let_def monitor_position_raised)

lemma monitor_loop_other:
  "s \<notin> symbol ` set ps \<Longrightarrow> risk_data (monitor_loop cfg gw ps st) s = risk_data st s"
  by (induction ps arbitrary: st) (auto simp: Let_def monitor_position_other)

lemma monitor_loop_store:
  "\<forall>p \<in> set ps. readable p \<Longrightarrow> raised st = None \<Longrightarrow> distinct (map symbol ps) \<Longrightarrow>
   risk_data (monitor_loop cfg gw ps st) s =
     (case find (\<lambda>p. symbol p = s) ps of
        None \<Rightarrow> risk_data st s
      | Some p \<Rightarrow> next_record cfg (values_of p) (risk_data st s))"
proof (induction ps arbitrary: st)
  case Nil
  then show ?case by simp
next
  case (Cons p ps)
  from Cons.prems have rp: "readable p" and rps: "\<forall>p \<in> set ps. readable p" by simp_all
  have r': "raised (monitor_position cfg gw st p) = None"
    using rp Cons.prems(2) by (simp add: monitor_position_raised)
  show ?case
  proof (cases "symbol p = s")
    case True
    with Cons.prems have "s \<notin> symbol ` set ps" by auto
    then have "risk_data (monitor_loop cfg gw ps (monitor_position cfg gw st p)) s =
               risk_data (monitor_position cfg gw st p) s"
      by (rule monitor_loop_other)
    with True r' rp show ?thesis by (simp add: Let_def monitor_position_store)
  next
    case False
    then have eq: "risk_data (monitor_position cfg gw st p) s = risk_data st s"
      by (simp add: monitor_position_other)
    have "risk_data (monitor_loop cfg gw ps (monitor_position cfg gw st p)) s =
          (case find (\<lambda>p. symbol p = s) ps of
             None \<Rightarrow> risk_data st s
           | Some p \<Rightarrow> next_record cfg (values_of p) (risk_data st s))"
      using Cons.prems(3) Cons.IH [OF rps r'] unfolding eq by simp
    with False r' show ?thesis
      by (simp add: Let_def)
  qed
qed

lemma monitor_loop_events:
  "\<forall>p \<in> set ps. readable p \<Longrightarrow> raised st = None \<Longrightarrow> distinct (map symbol ps) \<Longrightarrow>
   events (monitor_loop cfg gw ps st) =
     events st @ concat (map (\<lambda>p. step_events cfg gw (symbol p) (values_of p) (risk_data st (symbol p))) ps)"
proof (induction ps arbitrary: st)
  case Nil
  then show ?case by simp
next
  case (Cons p ps)
  from Cons.prems have rp: "readable p" and rps: "\<forall>p \<in> set ps. readable p" by simp_all
  have r': "raised (monitor_position cfg gw st p) = None"
    using rp Cons.prems(2) by (simp add: monitor_position_raised)
  have "risk_data (monitor_position cfg gw st p) (symbol q) = risk_data st (symbol q)"
    if "q \<in> set ps" for q
  proof -
    from that Cons.prems have "symbol q \<noteq> symbol p" by (auto simp: image_iff)
    then show ?thesis by (simp add: monitor_position_other)
  qed
  then have "map (\<lambda>q. step_events cfg gw (symbol q) (values_of q)
                        (risk_data (monitor_position cfg gw st p) (symbol q))) ps =
             map (\<lambda>q. step_events cfg gw (symbol q) (values_of q) (risk_data st (symbol q))) ps"
    by simp
  with Cons.prems(3) Cons.IH [OF rps r'] r' rp show ?case
    by (simp add: Let_def monitor_position_events)
qed

section \<open>One pass of the risk manager\<close>

lemma find_distinct:
  "distinct (map f xs) \<Longrightarrow> x \<in> set xs \<Longrightarrow> find (\<lambda>y. f y = f x) xs = Some x"
  by (induction xs) (auto simp: image_iff)

lemma find_Some_set: "find P xs = Some x \<Longrightarrow> x \<in> set xs \<and> P x"
  by (induction xs) (auto split: if_splits)

lemma pass_failed_read:
  "get_all_positions gw = None \<Longrightarrow> monitor_and_execute cfg gw rd = fresh_state rd"
  by (simp add: monitor_and_execute_def fresh_state_def)

lemma pass_no_positions:
  "get_all_positions gw = Some [] \<Longrightarrow>
   monitor_and_execute cfg gw rd = (fresh_state rd)\<lparr>risk_data := Map.empty, saved := Some Map.empty\<rparr>"
  by (simp add: monitor_and_execute_def fresh_state_def)

lemma pass_aborted:
  "get_all_positions gw = Some ps \<Longrightarrow> ps \<noteq> [] \<Longrightarrow>
   raised (monitor_loop cfg gw ps (fresh_state rd)) \<noteq> None \<Longrightarrow>
   monitor_and_execute cfg gw rd = monitor_loop cfg gw ps (fresh_state rd)"
  unfolding monitor_and_execute_def fresh_state_def [symmetric] Let_def by simp

lemma pass_completed:
  "get_all_positions gw = Some ps \<Longrightarrow> ps \<noteq> [] \<Longrightarrow>
   raised (monitor_loop cfg gw ps (fresh_state rd)) = None \<Longrightarrow>
   monitor_and_execute cfg gw rd =
     (monitor_loop cfg gw ps (fresh_state rd))
       \<lparr>risk_data := (\<lambda>s. if s \<in> set (current_symbols (monitor_loop cfg gw ps (fresh_state rd)))
                            then risk_data (monitor_loop cfg gw ps (fresh_state rd)) s else None),
        saved := Some (\<lambda>s. if s \<in> set (current_symbols (monitor_loop cfg gw ps (fresh_state rd)))
                            then risk_data (monitor_loop cfg gw ps (fresh_state rd)) s else None)\<rparr>"
  unfolding monitor_and_execute_def fresh_state_def [symmetric] Let_def by simp

lemma pass_positions:
  assumes a: "get_all_positions gw = Some ps" "ps \<noteq> []" and rd: "\<forall>p \<in> set ps. readable p"
  shows "monitor_and_execute cfg gw rd =
     (monitor_loop cfg gw ps (fresh_state rd))
       \<lparr>risk_data := (\<lambda>s. if s \<in> symbol ` set ps
                            then risk_data (monitor_loop cfg gw ps (fresh_state rd)) s else None),
        saved := Some (\<lambda>s. if s \<in> symbol ` set ps
                            then risk_data (monitor_loop cfg gw ps (fresh_state rd)) s else None)\<rparr>"
proof -
  have r: "raised (monitor_loop cfg gw ps (fresh_state rd)) = None"
    using rd by (simp add: monitor_loop_raised fresh_state_def)
  have c: "set (current_symbols (monitor_loop cfg gw ps (fresh_state rd))) = symbol ` set ps"
    using rd by (simp add: monitor_loop_symbols fresh_state_def)
  show ?thesis unfolding pass_completed [OF a r] c ..
qed

lemma pass_raised:
  "\<forall>ps. get_all_positions gw = Some ps \<longrightarrow> (\<forall>p \<in> set ps. readable p) \<Longrightarrow>
   raised (monitor_and_execute cfg gw rd) = None"
proof (cases "get_all_positions gw")
  case None
  then show ?thesis by (simp add: pass_failed_read fresh_state_def)
next
  case (Some ps)
  assume "\<forall>ps. get_all_positions gw = Some ps \<longrightarrow> (\<forall>p \<in> set ps. readable p)"
  with Some have r: "\<forall>p \<in> set ps. readable p" by simp
  show ?thesis
  proof (cases "ps = []")
    case True
    with Some show ?thesis by (simp add: pass_no_positions fresh_state_def)
  next
    case False
    show ?thesis unfolding pass_positions [OF Some False r]
      using r by (simp add: monitor_loop_raised fresh_state_def)
  qed
qed

lemma pass_saved:
  "get_all_positions gw = Some ps \<Longrightarrow> \<forall>p \<in> set ps. readable p \<Longrightarrow>
   saved (monitor_and_execute cfg gw rd) = Some (risk_data (monitor_and_execute cfg gw rd))"
  by (cases "ps = []") (simp_all add: pass_no_positions pass_positions)

lemma pass_dom:
  "get_all_positions gw = Some ps \<Longrightarrow> \<forall>p \<in> set ps. readable p \<Longrightarrow>
   dom (risk_data (monitor_and_execute cfg gw rd)) \<subseteq> symbol ` set ps"
  by (cases "ps = []") (auto simp: pass_no_positions pass_positions split: if_splits)

lemma pass_store:
  assumes "get_all_positions gw = Some ps" and "\<forall>p \<in> set ps. readable p"
    and "distinct (map symbol ps)"
  shows "risk_data (monitor_and_execute cfg gw rd) s =
     (case find (\<lambda>p. symbol p = s) ps of
        None \<Rightarrow> None
      | Some p \<Rightarrow> next_record cfg (values_of p) (rd s))"
proof (cases "ps = []")
  case True
  with assms show ?thesis by (simp add: pass_no_positions)
next
  case False
  have l: "risk_data (monitor_loop cfg gw ps (fresh_state rd)) s =
     (case find (\<lambda>p. symbol p = s) ps of
        None \<Rightarrow> rd s
      | Some p \<Rightarrow> next_record cfg (values_of p) (rd s))"
  proof -
    have f: "risk_data (fresh_state rd) s = rd s" by (simp add: fresh_state_def)
    have r: "raised (fresh_state rd) = None" by (simp add: fresh_state_def)
    show ?thesis using monitor_loop_store [OF assms(2) r assms(3), of cfg gw s] unfolding f .
  qed
  show ?thesis
  proof (cases "s \<in> symbol ` set ps")
    case True
    then have "find (\<lambda>p. symbol p = s) ps \<noteq> None"
      by (auto simp: find_None_iff)
    then obtain q where q: "find (\<lambda>p. symbol p = s) ps = Some q" by blast
    with assms(1,2) False l True show ?thesis by (simp add: pass_positions)
  next
    case n: False
    then have "find (\<lambda>p. symbol p = s) ps = None"
      by (auto simp: find_None_iff)
    with assms(1,2) False n show ?thesis by (simp add: pass_positions)
  qed
qed

lemma pass_events:
  assumes "get_all_positions gw = Some ps" and "\<forall>p \<in> set ps. readable p"
    and "distinct (map symbol ps)"
  shows "events (monitor_and_execute cfg gw rd) =
           concat (map (\<lambda>p. step_events cfg gw (symbol p) (values_of p) (rd (symbol p))) ps)"
proof (cases "ps = []")
  case True
  with assms show ?thesis by (simp add: pass_no_positions fresh_state_def)
next
  case False
  have r: "raised (fresh_state rd) = None" by (simp add: fresh_state_def)
  have f: "risk_data (fresh_state rd) = rd" "events (fresh_state rd) = []"
    by (simp_all add: fresh_state_def)
  have "events (monitor_loop cfg gw ps (fresh_state rd)) =
          concat (map (\<lambda>p. step_events cfg gw (symbol p) (values_of p) (rd (symbol p))) ps)"
    using monitor_loop_events [OF assms(2) r assms(3), of cfg gw] unfolding f by simp
  with assms(1,2) False show ?thesis
    by (simp add: pass_positions)
qed

lemma close_attempts_append [simp]:
  "close_attempts (xs @ ys) = close_attempts xs @ close_attempts ys"
  by (induction xs rule: close_attempts.induct) simp_all

lemma close_attempts_concat:
  "close_attempts (concat xss) = concat (map close_attempts xss)"
  by (induction xss) simp_all

lemma close_attempts_step:
  "close_attempts (step_events cfg gw sy v ro) =
     (if triggered (level_of cfg v ro)
      then [(\<lparr>order_symbol = sy, order_qty = Amount (fabs (signed_qty v)),
               order_side = sell_side (level_of cfg v ro), order_tif = GTC\<rparr>,
             if feq (final_stop (level_of cfg v ro)) (trail_stop (level_of cfg v ro))
             then TRAIL else HARD)]
      else [])"
  by (simp add: step_events_def execute_close_def Let_def)

lemma pass_attempt_symbols:
  assumes "get_all_positions gw = Some ps" and "\<forall>p \<in> set ps. readable p"
    and "distinct (map symbol ps)"
  shows "(order_symbol \<circ> fst) ` set (close_attempts (events (monitor_and_execute cfg gw rd))) =
           symbol ` {p \<in> set ps. triggered (level_of cfg (values_of p) (rd (symbol p)))}"
  unfolding pass_events [OF assms] close_attempts_concat
  by (auto simp: close_attempts_step image_iff split: if_splits)







lemma read_held [simp]:
  "read_position (held sy q e c) = Inr \<lparr>signed_qty = Fin q, entry = Fin e, current = Fin c\<rparr>"
  by (simp add: read_position_def held_def and_then_def)

lemma symbol_held [simp]: "symbol (held sy q e c) = sy"
  by (simp add: held_def)

lemma readable_held [simp]: "readable (held sy q e c)"
  by (simp add: readable_def)

lemma values_held [simp]:
  "values_of (held sy q e c) = \<lparr>signed_qty = Fin q, entry = Fin e, current = Fin c\<rparr>"
  by (simp add: values_of_def)

lemma scenario1_level:
  "stop_levels default_cfg True (Fin 100) (Fin 110) (Fin 104) =
     \<lparr>hard_stop = Fin 92, trail_stop = Fin 104.5, final_stop = Fin 104.5, triggered = True,
      sell_side = SELL\<rparr>"
proof -
  have h: "fmul (Fin 100) (fsub (Fin 1) (initial_stop_loss_pct default_cfg)) = Fin 92"
    by (simp add: default_cfg_def float_eval)
  have t: "fmul (Fin 110) (fsub (Fin 1) (trailing_pct default_cfg)) = Fin 104.5"
    by (simp add: default_cfg_def float_eval)
  show ?thesis
    by (simp add: stop_levels_def h t py_max_def fle_def feq_def Let_def)
qed

lemma scenario2_level:
  "stop_levels default_cfg False (Fin 200) (Fin 180) (Fin 220) =
     \<lparr>hard_stop = Fin 216, trail_stop = Fin 189, final_stop = Fin 189, triggered = True,
      sell_side = BUY\<rparr>"
proof -
  have h: "fmul (Fin 200) (fadd (Fin 1) (initial_stop_loss_pct default_cfg)) = Fin 216"
    by (simp add: default_cfg_def float_eval)
  have t: "fmul (Fin 180) (fadd (Fin 1) (trailing_pct default_cfg)) = Fin 189"
    by (simp add: default_cfg_def float_eval)
  show ?thesis
    by (simp add: stop_levels_def h t py_min_def fle_def feq_def Let_def)
qed

lemmas step_defs = step_events_def next_record_def level_of_def tracked_def improves_def seeded_def

lemma single_events:
  assumes g: "get_all_positions gw = Some [p]" and v: "read_position p = Inr v"
  shows "events (monitor_and_execute cfg gw rd) = step_events cfg gw (symbol p) v (rd (symbol p))"
proof -
  from v have r: "\<forall>q \<in> set [p]. readable q" and e: "values_of p = v"
    by (simp_all add: read_values)
  show ?thesis using pass_events [OF g r, of cfg rd] e by simp
qed

lemma single_store:
  assumes g: "get_all_positions gw = Some [p]" and v: "read_position p = Inr v"
  shows "risk_data (monitor_and_execute cfg gw rd) s =
           (if s = symbol p then next_record cfg v (rd s) else None)"
proof -
  from v have r: "\<forall>q \<in> set [p]. readable q" and e: "values_of p = v"
    by (simp_all add: read_values)
  show ?thesis using pass_store [OF g r, of cfg rd s] e by auto
qed

lemma gateway_positions [simp]:
  "get_all_positions (holding_gateway ps) = Some ps"
  "get_all_positions (failing_gateway ps) = Some ps"
  by (simp_all add: holding_gateway_def failing_gateway_def)

lemma gateway_submit [simp]:
  "submit_order (holding_gateway ps) od = True"
  "submit_order (failing_gateway ps) od = False"
  by (simp_all add: holding_gateway_def failing_gateway_def accept_all_def reject_all_def)

text \<open>
  C3, amended. For the short position of Scenario 2 (entry 200, extreme 180, current
  220) the hard stop is 216, the trailing stop is 189, the final stop is
  \<open>min(216, 189) = 189\<close>, the stop triggers and the closing order is tagged TRAIL.
\<close>

theorem scenario2_trailing_stop:
  "stop_levels default_cfg False (Fin 200) (Fin 180) (Fin 220) =
     \<lparr>hard_stop = Fin 216, trail_stop = Fin 189, final_stop = Fin 189, triggered = True,
      sell_side = BUY\<rparr> \<and>
   events (monitor_and_execute default_cfg (holding_gateway [scenario2_position])
             (one_record ''TSLA'' 180 SHORT)) =
     [StopLine ''TSLA'' False (Fin 220) (Fin 180) (Fin 189),
      CloseSubmitted \<lparr>order_symbol = ''TSLA'', order_qty = Amount (Fin 10), order_side = BUY,
                      order_tif = GTC\<rparr> TRAIL]"
proof
  show "stop_levels default_cfg False (Fin 200) (Fin 180) (Fin 220) =
     \<lparr>hard_stop = Fin 216, trail_stop = Fin 189, final_stop = Fin 189, triggered = True,
      sell_side = BUY\<rparr>" by (rule scenario2_level)
  show "events (monitor_and_execute default_cfg (holding_gateway [scenario2_position])
             (one_record ''TSLA'' 180 SHORT)) =
     [StopLine ''TSLA'' False (Fin 220) (Fin 180) (Fin 189),
      CloseSubmitted \<lparr>order_symbol = ''TSLA'', order_qty = Amount (Fin 10), order_side = BUY,
                      order_tif = GTC\<rparr> TRAIL]"
    unfolding scenario2_position_def
    by (simp add: single_events [OF gateway_positions(1) read_held] step_defs one_record_def
          scenario2_level execute_close_def feq_def)
qed

lemma improves_eq:
  "improves v ro = (case ro of None \<Rightarrow> False
      | Some r \<Rightarrow> if flt (Fin 0) (signed_qty v) then flt (extreme_price r) (current v)
                  else flt (current v) (extreme_price r))"
  by (simp add: improves_def seeded_def flt_irrefl split: option.splits)

lemma tracked_eq:
  "tracked v ro = (case ro of None \<Rightarrow> current v
      | Some r \<Rightarrow> if flt (Fin 0) (signed_qty v) then py_max (extreme_price r) (current v)
                  else py_min (extreme_price r) (current v))"
  by (simp add: tracked_def improves_def seeded_def py_max_def py_min_def flt_irrefl
        split: option.splits)

lemma level_long:
  "flt (Fin 0) (signed_qty v) \<Longrightarrow> level_of cfg v ro =
     \<lparr>hard_stop = fmul (entry v) (fsub (Fin 1) (initial_stop_loss_pct cfg)),
      trail_stop = fmul (tracked v ro) (fsub (Fin 1) (trailing_pct cfg)),
      final_stop = py_max (fmul (entry v) (fsub (Fin 1) (initial_stop_loss_pct cfg)))
                          (fmul (tracked v ro) (fsub (Fin 1) (trailing_pct cfg))),
      triggered = fle (current v)
                    (py_max (fmul (entry v) (fsub (Fin 1) (initial_stop_loss_pct cfg)))
                            (fmul (tracked v ro) (fsub (Fin 1) (trailing_pct cfg)))),
      sell_side = SELL\<rparr>"
  by (simp add: level_of_def stop_levels_def Let_def)

lemma level_short:
  "\<not> flt (Fin 0) (signed_qty v) \<Longrightarrow> level_of cfg v ro =
     \<lparr>hard_stop = fmul (entry v) (fadd (Fin 1) (initial_stop_loss_pct cfg)),
      trail_stop = fmul (tracked v ro) (fadd (Fin 1) (trailing_pct cfg)),
      final_stop = py_min (fmul (entry v) (fadd (Fin 1) (initial_stop_loss_pct cfg)))
                          (fmul (tracked v ro) (fadd (Fin 1) (trailing_pct cfg))),
      triggered = fle (py_min (fmul (entry v) (fadd (Fin 1) (initial_stop_loss_pct cfg)))
                              (fmul (tracked v ro) (fadd (Fin 1) (trailing_pct cfg))))
                      (current v),
      sell_side = BUY\<rparr>"
  by (simp add: level_of_def stop_levels_def Let_def)

lemma triggered_eq:
  "triggered (level_of cfg v ro) =
     (if flt (Fin 0) (signed_qty v)
      then fle (current v)
             (py_max (fmul (entry v) (fsub (Fin 1) (initial_stop_loss_pct cfg)))
                     (fmul (tracked v ro) (fsub (Fin 1) (trailing_pct cfg))))
      else fle (py_min (fmul (entry v) (fadd (Fin 1) (initial_stop_loss_pct cfg)))
                       (fmul (tracked v ro) (fadd (Fin 1) (trailing_pct cfg))))
               (current v))"
  by (simp add: level_long level_short)

section \<open>The stop-loss evaluation\<close>

text \<open>
  C1. The loop body, for a position whose three fields convert. For a long position
  (\<open>float(position.qty) > 0\<close>) it computes, in double arithmetic,
  \<open>hard_stop = avg_entry_price * (1 - initial_stop_loss_pct)\<close>,
  \<open>trail_stop = extreme_price * (1 - trailing_pct)\<close> and
  \<open>final_stop = max(hard_stop, trail_stop)\<close>, where \<open>extreme_price\<close> is the record's
  value after the favourable update, logs the stop line, and closes exactly when
  \<open>current_price <= final_stop\<close>; for any other position it mirrors with \<open>+\<close>, \<open>min\<close> and
  \<open>final_stop <= current_price\<close>. The closing order is tagged TRAIL when
  \<open>final_stop == trail_stop\<close> and HARD otherwise. A pass over Scenario 1 logs the stop
  line 104.5 and submits a closing order tagged TRAIL.
\<close>

theorem stop_evaluation:
  "(read_position p = Inr v \<and> flt (Fin 0) (signed_qty v) \<longrightarrow>
      (let extreme = (case risk_data st (symbol p) of None \<Rightarrow> current v
                      | Some r \<Rightarrow> py_max (extreme_price r) (current v));
           hard = fmul (entry v) (fsub (Fin 1) (initial_stop_loss_pct cfg));
           trail = fmul extreme (fsub (Fin 1) (trailing_pct cfg));
           final = py_max hard trail
       in stop_levels cfg True (entry v) extreme (current v) =
            \<lparr>hard_stop = hard, trail_stop = trail, final_stop = final,
             triggered = fle (current v) final, sell_side = SELL\<rparr> \<and>
          events (monitor_position cfg gw st p) =
            events st @
            (if (case risk_data st (symbol p) of None \<Rightarrow> False
                 | Some r \<Rightarrow> flt (extreme_price r) (current v))
             then [NewExtreme (symbol p) (current v)] else []) @
            [StopLine (symbol p) True (current v) extreme final] @
            (if fle (current v) final
             then [execute_close gw (symbol p) (fabs (signed_qty v)) SELL
                     (if feq final trail then TRAIL else HARD)]
             else []))) \<and>
   (read_position p = Inr v \<and> \<not> flt (Fin 0) (signed_qty v) \<longrightarrow>
      (let extreme = (case risk_data st (symbol p) of None \<Rightarrow> current v
                      | Some r \<Rightarrow> py_min (extreme_price r) (current v));
           hard = fmul (entry v) (fadd (Fin 1) (initial_stop_loss_pct cfg));
           trail = fmul extreme (fadd (Fin 1) (trailing_pct cfg));
           final = py_min hard trail
       in stop_levels cfg False (entry v) extreme (current v) =
            \<lparr>hard_stop = hard, trail_stop = trail, final_stop = final,
             triggered = fle final (current v), sell_side = BUY\<rparr> \<and>
          events (monitor_position cfg gw st p) =
            events st @
            (if (case risk_data st (symbol p) of None \<Rightarrow> False
                 | Some r \<Rightarrow> flt (current v) (extreme_price r))
             then [NewExtreme (symbol p) (current v)] else []) @
            [StopLine (symbol p) False (current v) extreme final] @
            (if fle final (current v)
             then [execute_close gw (symbol p) (fabs (signed_qty v)) BUY
                     (if feq final trail then TRAIL else HARD)]
             else []))) \<and>
   events (monitor_and_execute default_cfg (holding_gateway [scenario1_position])
             (one_record ''AAPL'' 110 LONG)) =
     [StopLine ''AAPL'' True (Fin 104) (Fin 110) (Fin 104.5),
      CloseSubmitted \<lparr>order_symbol = ''AAPL'', order_qty = Amount (Fin 10), order_side = SELL,
                      order_tif = GTC\<rparr> TRAIL]"
proof (intro conjI impI)
  assume a: "read_position p = Inr v \<and> flt (Fin 0) (signed_qty v)"
  then have rv: "read_position p = Inr v" and l: "flt (Fin 0) (signed_qty v)" by simp_all
  have t: "tracked v (risk_data st (symbol p)) =
           (case risk_data st (symbol p) of None \<Rightarrow> current v
            | Some r \<Rightarrow> py_max (extreme_price r) (current v))"
    using l by (simp add: tracked_eq split: option.splits)
  have i: "improves v (risk_data st (symbol p)) =
           (case risk_data st (symbol p) of None \<Rightarrow> False
            | Some r \<Rightarrow> flt (extreme_price r) (current v))"
    using l by (simp add: improves_eq split: option.splits)
  have e: "events (monitor_position cfg gw st p) =
           events st @ step_events cfg gw (symbol p) v (risk_data st (symbol p))"
    by (simp add: monitor_position_read [OF rv])
  show "let extreme = (case risk_data st (symbol p) of None \<Rightarrow> current v
                      | Some r \<Rightarrow> py_max (extreme_price r) (current v));
           hard = fmul (entry v) (fsub (Fin 1) (initial_stop_loss_pct cfg));
           trail = fmul extreme (fsub (Fin 1) (trailing_pct cfg));
           final = py_max hard trail
       in stop_levels cfg True (entry v) extreme (current v) =
            \<lparr>hard_stop = hard, trail_stop = trail, final_stop = final,
             triggered = fle (current v) final, sell_side = SELL\<rparr> \<and>
          events (monitor_position cfg gw st p) =
            events st @
            (if (case risk_data st (symbol p) of None \<Rightarrow> False
                 | Some r \<Rightarrow> flt (extreme_price r) (current v))
             then [NewExtreme (symbol p) (current v)] else []) @
            [StopLine (symbol p) True (current v) extreme final] @
            (if fle (current v) final
             then [execute_close gw (symbol p) (fabs (signed_qty v)) SELL
                     (if feq final trail then TRAIL else HARD)]
             else [])"
    unfolding Let_def e step_events_def level_long [OF l] i t
    by (simp add: stop_levels_def Let_def l)
next
  assume a: "read_position p = Inr v \<and> \<not> flt (Fin 0) (signed_qty v)"
  then have rv: "read_position p = Inr v" and s: "\<not> flt (Fin 0) (signed_qty v)" by simp_all
  have t: "tracked v (risk_data st (symbol p)) =
           (case risk_data st (symbol p) of None \<Rightarrow> current v
            | Some r \<Rightarrow> py_min (extreme_price r) (current v))"
    using s by (simp add: tracked_eq split: option.splits)
  have i: "improves v (risk_data st (symbol p)) =
           (case risk_data st (symbol p) of None \<Rightarrow> False
            | Some r \<Rightarrow> flt (current v) (extreme_price r))"
    using s by (simp add: improves_eq split: option.splits)
  have e: "events (monitor_position cfg gw st p) =
           events st @ step_events cfg gw (symbol p) v (risk_data st (symbol p))"
    by (simp add: monitor_position_read [OF rv])
  show "let extreme = (case risk_data st (symbol p) of None \<Rightarrow> current v
                      | Some r \<Rightarrow> py_min (extreme_price r) (current v));
           hard = fmul (entry v) (fadd (Fin 1) (initial_stop_loss_pct cfg));
           trail = fmul extreme (fadd (Fin 1) (trailing_pct cfg));
           final = py_min hard trail
       in stop_levels cfg False (entry v) extreme (current v) =
            \<lparr>hard_stop = hard, trail_stop = trail, final_stop = final,
             triggered = fle final (current v), sell_side = BUY\<rparr> \<and>
          events (monitor_position cfg gw st p) =
            events st @
            (if (case risk_data st (symbol p) of None \<Rightarrow> False
                 | Some r \<Rightarrow> flt (current v) (extreme_price r))
             then [NewExtreme (symbol p) (current v)] else []) @
            [StopLine (symbol p) False (current v) extreme final] @
            (if fle final (current v)
             then [execute_close gw (symbol p) (fabs (signed_qty v)) BUY
                     (if feq final trail then TRAIL else HARD)]
             else [])"
    unfolding Let_def e step_events_def level_short [OF s] i t
    by (simp add: stop_levels_def Let_def s)
next
  show "events (monitor_and_execute default_cfg (holding_gateway [scenario1_position])
             (one_record ''AAPL'' 110 LONG)) =
     [StopLine ''AAPL'' True (Fin 104) (Fin 110) (Fin 104.5),
      CloseSubmitted \<lparr>order_symbol = ''AAPL'', order_qty = Amount (Fin 10), order_side = SELL,
                      order_tif = GTC\<rparr> TRAIL]"
    unfolding scenario1_position_def
    by (simp add: single_events [OF gateway_positions(1) read_held] step_defs one_record_def
          scenario1_level execute_close_def feq_def)
qed

lemma short_225_level:
  "stop_levels default_cfg False (Fin 225) (Fin 243) (Fin 243) =
     \<lparr>hard_stop = Fin (8549802417586177 / 2 ^ 45), trail_stop = Fin (8977292538465485 / 2 ^ 45),
      final_stop = Fin (8549802417586177 / 2 ^ 45), triggered = False, sell_side = BUY\<rparr>"
proof -
  have h: "fmul (Fin 225) (fadd (Fin 1) (initial_stop_loss_pct default_cfg)) =
           Fin (8549802417586177 / 2 ^ 45)"
    by (simp add: default_cfg_def float_eval)
  have t: "fmul (Fin 243) (fadd (Fin 1) (trailing_pct default_cfg)) =
           Fin (8977292538465485 / 2 ^ 45)"
    by (simp add: default_cfg_def float_eval)
  show ?thesis
    by (simp add: stop_levels_def h t py_min_def fle_def feq_def Let_def)
qed

lemma long_95_level:
  "stop_levels default_cfg True (Fin 95) (Fin 92) (Fin 87) =
     \<lparr>hard_stop = Fin (3075114120563917 / 2 ^ 45), trail_stop = Fin (6150228241127833 / 2 ^ 46),
      final_stop = Fin (3075114120563917 / 2 ^ 45), triggered = True, sell_side = SELL\<rparr>"
proof -
  have h: "fmul (Fin 95) (fsub (Fin 1) (initial_stop_loss_pct default_cfg)) =
           Fin (3075114120563917 / 2 ^ 45)"
    by (simp add: default_cfg_def float_eval)
  have t: "fmul (Fin 92) (fsub (Fin 1) (trailing_pct default_cfg)) =
           Fin (6150228241127833 / 2 ^ 46)"
    by (simp add: default_cfg_def float_eval)
  show ?thesis
    by (simp add: stop_levels_def h t py_max_def fle_def feq_def Let_def)
qed

lemma default_products:
  "fmul (Fin 100) (fsub (Fin 1) (initial_stop_loss_pct default_cfg)) = Fin 92"
  "fmul (Fin 110) (fsub (Fin 1) (trailing_pct default_cfg)) = Fin 104.5"
  "fmul (Fin 95) (fsub (Fin 1) (initial_stop_loss_pct default_cfg)) = Fin (3075114120563917 / 2 ^ 45)"
  "fmul (Fin 92) (fsub (Fin 1) (trailing_pct default_cfg)) = Fin (6150228241127833 / 2 ^ 46)"
  "fmul (Fin 225) (fadd (Fin 1) (initial_stop_loss_pct default_cfg)) = Fin (8549802417586177 / 2 ^ 45)"
  "fmul (Fin 243) (fadd (Fin 1) (trailing_pct default_cfg)) = Fin (8977292538465485 / 2 ^ 45)"
  by (simp_all add: default_cfg_def float_eval)

text \<open>
  C1 at concrete positions: Scenario 1; a long position with entry 95, extreme 92 and
  current price 87, whose hard stop \<open>95 * 0.92\<close> is the double above \<open>92 * 0.95\<close> and
  whose close is tagged HARD; a short position entered at 225 and seen at 243, whose
  hard stop \<open>225 * 1.08\<close> is the double above 243 and which is not closed.
\<close>

theorem stop_evaluation_witness:
  "read_position scenario1_position = Inr \<lparr>signed_qty = Fin 10, entry = Fin 100, current = Fin 104\<rparr> \<and>
   flt (Fin 0) (Fin 10) \<and>
   events (monitor_position default_cfg (holding_gateway [])
            (fresh_state (one_record ''AAPL'' 110 LONG)) scenario1_position) =
     [StopLine ''AAPL'' True (Fin 104) (Fin 110) (Fin 104.5),
      CloseSubmitted \<lparr>order_symbol = ''AAPL'', order_qty = Amount (Fin 10), order_side = SELL,
                      order_tif = GTC\<rparr> TRAIL] \<and>
   read_position (held ''AAPL'' 10 95 87) = Inr \<lparr>signed_qty = Fin 10, entry = Fin 95, current = Fin 87\<rparr> \<and>
   events (monitor_position default_cfg (holding_gateway [])
            (fresh_state (one_record ''AAPL'' 92 LONG)) (held ''AAPL'' 10 95 87)) =
     [StopLine ''AAPL'' True (Fin 87) (Fin 92) (Fin (3075114120563917 / 2 ^ 45)),
      CloseSubmitted \<lparr>order_symbol = ''AAPL'', order_qty = Amount (Fin 10), order_side = SELL,
                      order_tif = GTC\<rparr> HARD] \<and>
   read_position (held ''TSLA'' (- 10) 225 243) =
     Inr \<lparr>signed_qty = Fin (- 10), entry = Fin 225, current = Fin 243\<rparr> \<and>
   \<not> flt (Fin 0) (Fin (- 10)) \<and>
   events (monitor_position default_cfg (holding_gateway []) (fresh_state Map.empty)
            (held ''TSLA'' (- 10) 225 243)) =
     [StopLine ''TSLA'' False (Fin 243) (Fin 243) (Fin (8549802417586177 / 2 ^ 45))]"
proof -
  have r1: "read_position scenario1_position =
              Inr \<lparr>signed_qty = Fin 10, entry = Fin 100, current = Fin 104\<rparr>"
    by (simp add: scenario1_position_def)
  have l: "flt (Fin 0) (Fin 10)" "\<not> flt (Fin 0) (Fin (- 10))" by simp_all
  have e1: "events (monitor_position default_cfg (holding_gateway [])
            (fresh_state (one_record ''AAPL'' 110 LONG)) scenario1_position) =
     [StopLine ''AAPL'' True (Fin 104) (Fin 110) (Fin 104.5),
      CloseSubmitted \<lparr>order_symbol = ''AAPL'', order_qty = Amount (Fin 10), order_side = SELL,
                      order_tif = GTC\<rparr> TRAIL]"
    using stop_evaluation [where p = scenario1_position
      and v = "\<lparr>signed_qty = Fin 10, entry = Fin 100, current = Fin 104\<rparr>"
      and st = "fresh_state (one_record ''AAPL'' 110 LONG)"
      and cfg = default_cfg and gw = "holding_gateway []", THEN conjunct1, unfolded Let_def,
      THEN mp, THEN conjunct2] r1
    by (simp add: scenario1_position_def fresh_state_def one_record_def py_max_def
          default_products fle_def feq_def execute_close_def)
  have e2: "events (monitor_position default_cfg (holding_gateway [])
            (fresh_state (one_record ''AAPL'' 92 LONG)) (held ''AAPL'' 10 95 87)) =
     [StopLine ''AAPL'' True (Fin 87) (Fin 92) (Fin (3075114120563917 / 2 ^ 45)),
      CloseSubmitted \<lparr>order_symbol = ''AAPL'', order_qty = Amount (Fin 10), order_side = SELL,
                      order_tif = GTC\<rparr> HARD]"
    using stop_evaluation [where p = "held ''AAPL'' 10 95 87"
      and v = "\<lparr>signed_qty = Fin 10, entry = Fin 95, current = Fin 87\<rparr>"
      and st = "fresh_state (one_record ''AAPL'' 92 LONG)"
      and cfg = default_cfg and gw = "holding_gateway []", THEN conjunct1, unfolded Let_def,
      THEN mp, THEN conjunct2]
    by (simp add: fresh_state_def one_record_def py_max_def
          default_products fle_def feq_def execute_close_def)
  have e3: "events (monitor_position default_cfg (holding_gateway []) (fresh_state Map.empty)
            (held ''TSLA'' (- 10) 225 243)) =
     [StopLine ''TSLA'' False (Fin 243) (Fin 243) (Fin (8549802417586177 / 2 ^ 45))]"
    using stop_evaluation [where p = "held ''TSLA'' (- 10) 225 243"
      and v = "\<lparr>signed_qty = Fin (- 10), entry = Fin 225, current = Fin 243\<rparr>"
      and st = "fresh_state Map.empty"
      and cfg = default_cfg and gw = "holding_gateway []", THEN conjunct2, THEN conjunct1,
      unfolded Let_def, THEN mp, THEN conjunct2]
    by (simp add: fresh_state_def py_min_def default_products fle_def feq_def)
  show ?thesis
    using r1 l e1 e2 e3 by (intro conjI) simp_all
qed

text \<open>
  C3, as stated. For Scenario 2 the final stop is not 216, and no closing order tagged
  HARD is submitted.
\<close>

theorem scenario2_final_stop_not_hard:
  "final_stop (stop_levels default_cfg False (Fin 200) (Fin 180) (Fin 220)) \<noteq> Fin 216 \<and>
   CloseSubmitted \<lparr>order_symbol = ''TSLA'', order_qty = Amount (Fin 10), order_side = BUY,
                   order_tif = GTC\<rparr> HARD
     \<notin> set (events (monitor_and_execute default_cfg (holding_gateway [scenario2_position])
                      (one_record ''TSLA'' 180 SHORT)))"
  unfolding scenario2_position_def
  by (simp add: single_events [OF gateway_positions(1) read_held] step_defs one_record_def
        scenario2_level execute_close_def feq_def)

lemma read_position_error: "read_position p = Inl e \<Longrightarrow> e = TypeError \<or> e = ValueError"
  by (cases "qty p"; cases "avg_entry_price p"; cases "current_price p")
     (auto simp: read_position_def and_then_def)

lemma monitor_position_no_division:
  "raised st \<noteq> Some ZeroDivisionError \<Longrightarrow>
   raised (monitor_position cfg gw st p) \<noteq> Some ZeroDivisionError"
  by (cases "read_position p")
     (auto simp: monitor_position_unread monitor_position_read dest: read_position_error)

lemma monitor_loop_no_division:
  "raised st \<noteq> Some ZeroDivisionError \<Longrightarrow>
   raised (monitor_loop cfg gw ps st) \<noteq> Some ZeroDivisionError"
  by (induction ps arbitrary: st) (simp_all add: Let_def monitor_position_no_division)

lemma pass_no_division: "raised (monitor_and_execute cfg gw rd) \<noteq> Some ZeroDivisionError"
proof (cases "get_all_positions gw")
  case None
  then show ?thesis by (simp add: pass_failed_read fresh_state_def)
next
  case (Some ps)
  have l: "raised (monitor_loop cfg gw ps (fresh_state rd)) \<noteq> Some ZeroDivisionError"
    by (rule monitor_loop_no_division) (simp add: fresh_state_def)
  show ?thesis
  proof (cases "ps = []")
    case True
    with Some show ?thesis by (simp add: pass_no_positions fresh_state_def)
  next
    case False
    show ?thesis
    proof (cases "raised (monitor_loop cfg gw ps (fresh_state rd)) = None")
      case True
      show ?thesis unfolding pass_completed [OF Some False True] using True by simp
    next
      case F: False
      show ?thesis unfolding pass_aborted [OF Some False F] by (rule l)
    qed
  qed
qed

text \<open>
  C6, amended. No pass leaves with a \<open>ZeroDivisionError\<close>. In a pass over positions
  whose fields all convert, the gateway reporting each symbol once, no exception leaves
  the pass, and a closing order is attempted for a position exactly when the ordinary
  formulas say so, in double arithmetic, whatever the sign of its prices and whether or
  not its entry price is 0.
\<close>

theorem garbage_prices_not_exempt:
  "raised (monitor_and_execute cfg gw rd) \<noteq> Some ZeroDivisionError \<and>
   (get_all_positions gw = Some ps \<and> (\<forall>q \<in> set ps. readable q) \<and> distinct (map symbol ps) \<and>
    p \<in> set ps \<longrightarrow>
      raised (monitor_and_execute cfg gw rd) = None \<and>
      (symbol p \<in> (order_symbol \<circ> fst) ` set (close_attempts (events (monitor_and_execute cfg gw rd)))) =
      (let v = values_of p;
           extreme = (case rd (symbol p) of None \<Rightarrow> current v
                      | Some r \<Rightarrow> if flt (Fin 0) (signed_qty v)
                                  then py_max (extreme_price r) (current v)
                                  else py_min (extreme_price r) (current v))
       in if flt (Fin 0) (signed_qty v)
          then fle (current v)
                 (py_max (fmul (entry v) (fsub (Fin 1) (initial_stop_loss_pct cfg)))
                         (fmul extreme (fsub (Fin 1) (trailing_pct cfg))))
          else fle (py_min (fmul (entry v) (fadd (Fin 1) (initial_stop_loss_pct cfg)))
                           (fmul extreme (fadd (Fin 1) (trailing_pct cfg))))
                   (current v)))"
proof (intro conjI impI)
  show "raised (monitor_and_execute cfg gw rd) \<noteq> Some ZeroDivisionError"
    by (rule pass_no_division)
next
  assume a: "get_all_positions gw = Some ps \<and> (\<forall>q \<in> set ps. readable q) \<and>
             distinct (map symbol ps) \<and> p \<in> set ps"
  then have g: "get_all_positions gw = Some ps" by simp
  from a have r: "\<forall>q \<in> set ps. readable q" by simp
  show "raised (monitor_and_execute cfg gw rd) = None"
    using g r by (intro pass_raised) simp
next
  assume a: "get_all_positions gw = Some ps \<and> (\<forall>q \<in> set ps. readable q) \<and>
             distinct (map symbol ps) \<and> p \<in> set ps"
  then have g: "get_all_positions gw = Some ps" and d: "distinct (map symbol ps)"
    and m: "p \<in> set ps" by simp_all
  from a have r: "\<forall>q \<in> set ps. readable q" by simp
  have io: "inj_on symbol (set ps)" using d by (simp add: distinct_map)
  let ?T = "\<lambda>q. triggered (level_of cfg (values_of q) (rd (symbol q)))"
  have t: "(symbol p \<in> symbol ` {q \<in> set ps. ?T q}) = ?T p"
  proof
    assume "symbol p \<in> symbol ` {q \<in> set ps. ?T q}"
    then obtain q where q: "q \<in> set ps" "?T q" "symbol p = symbol q" by blast
    have "p = q" using io q(3) m q(1) by (rule inj_onD)
    with q(2) show "?T p" by simp
  next
    assume "?T p"
    with m show "symbol p \<in> symbol ` {q \<in> set ps. ?T q}" by blast
  qed
  have "(symbol p \<in> (order_symbol \<circ> fst) ` set (close_attempts (events (monitor_and_execute cfg gw rd)))) =
        ?T p"
    unfolding pass_attempt_symbols [OF g r d] by (rule t)
  then show "(symbol p \<in> (order_symbol \<circ> fst) ` set (close_attempts (events (monitor_and_execute cfg gw rd)))) =
      (let v = values_of p;
           extreme = (case rd (symbol p) of None \<Rightarrow> current v
                      | Some r \<Rightarrow> if flt (Fin 0) (signed_qty v)
                                  then py_max (extreme_price r) (current v)
                                  else py_min (extreme_price r) (current v))
       in if flt (Fin 0) (signed_qty v)
          then fle (current v)
                 (py_max (fmul (entry v) (fsub (Fin 1) (initial_stop_loss_pct cfg)))
                         (fmul extreme (fsub (Fin 1) (trailing_pct cfg))))
          else fle (py_min (fmul (entry v) (fadd (Fin 1) (initial_stop_loss_pct cfg)))
                           (fmul extreme (fadd (Fin 1) (trailing_pct cfg))))
                   (current v))"
    unfolding triggered_eq tracked_eq Let_def by (simp split: option.splits)
qed

lemma zero_products:
  "fmul (Fin 0) (fsub (Fin 1) (initial_stop_loss_pct default_cfg)) = Fin 0"
  "fmul (Fin (- 1)) (fsub (Fin 1) (initial_stop_loss_pct default_cfg)) =
     Fin (- 8286623314361713 / 2 ^ 53)"
  "fmul (Fin (- 5)) (fsub (Fin 1) (trailing_pct default_cfg)) = Fin (- 19 / 4)"
  by (simp_all add: default_cfg_def float_eval)

text \<open>
  C6, amended, at a long position whose entry price is 0, with extreme 110 and
  current price 104: the closing order is attempted.
\<close>

theorem garbage_prices_not_exempt_witness:
  "get_all_positions (holding_gateway [zero_entry_position]) = Some [zero_entry_position] \<and>
   readable zero_entry_position \<and>
   distinct (map symbol [zero_entry_position]) \<and> zero_entry_position \<in> set [zero_entry_position] \<and>
   entry (values_of zero_entry_position) = Fin 0 \<and>
   symbol zero_entry_position \<in> (order_symbol \<circ> fst) `
      set (close_attempts (events (monitor_and_execute default_cfg (holding_gateway [zero_entry_position])
                                     (one_record ''AAPL'' 110 LONG)))) \<and>
   raised (monitor_and_execute default_cfg (holding_gateway [zero_entry_position])
             (one_record ''AAPL'' 110 LONG)) = None"
  using garbage_prices_not_exempt [where gw = "holding_gateway [zero_entry_position]"
          and ps = "[zero_entry_position]" and p = zero_entry_position and cfg = default_cfg
          and rd = "one_record ''AAPL'' 110 LONG"]
  by (simp add: zero_entry_position_def one_record_def py_max_def default_products zero_products
        fle_def feq_def)

text \<open>
  C6, as stated. A long position whose entry price is 0, with extreme 110 and current
  price 104, is closed; a long position with entry price -1 and current price -5 is
  closed the first time it is seen.
\<close>

theorem zero_entry_and_negative_prices_trigger:
  "entry (values_of zero_entry_position) = Fin 0 \<and>
   events (monitor_and_execute default_cfg (holding_gateway [zero_entry_position])
             (one_record ''AAPL'' 110 LONG)) =
     [StopLine ''AAPL'' True (Fin 104) (Fin 110) (Fin 104.5),
      CloseSubmitted \<lparr>order_symbol = ''AAPL'', order_qty = Amount (Fin 10), order_side = SELL,
                      order_tif = GTC\<rparr> TRAIL] \<and>
   values_of negative_price_position = \<lparr>signed_qty = Fin 10, entry = Fin (- 1), current = Fin (- 5)\<rparr> \<and>
   events (monitor_and_execute default_cfg (holding_gateway [negative_price_position]) Map.empty) =
     [StopLine ''AAPL'' True (Fin (- 5)) (Fin (- 5)) (Fin (- 8286623314361713 / 2 ^ 53)),
      CloseSubmitted \<lparr>order_symbol = ''AAPL'', order_qty = Amount (Fin 10), order_side = SELL,
                      order_tif = GTC\<rparr> HARD]"
  unfolding zero_entry_position_def negative_price_position_def
  by (simp add: single_events [OF gateway_positions(1) read_held] step_defs one_record_def
        stop_levels_def default_products zero_products py_max_def fle_def feq_def
        execute_close_def Let_def)

lemma more_products:
  "fmul (Fin 310) (fsub (Fin 1) (trailing_pct default_cfg)) = Fin 294.5"
  "fmul (Fin 300) (fsub (Fin 1) (initial_stop_loss_pct default_cfg)) = Fin 276"
  "fmul (Fin 105) (fsub (Fin 1) (trailing_pct default_cfg)) = Fin (399 / 4)"
  "fmul (Fin 100) (fadd (Fin 1) (initial_stop_loss_pct default_cfg)) = Fin 108"
  "fmul (Fin 100) (fadd (Fin 1) (trailing_pct default_cfg)) = Fin 105"
  "fmul (Fin 104) (fsub (Fin 1) (trailing_pct default_cfg)) = Fin (6952431924753203 / 2 ^ 46)"
  by (simp_all add: default_cfg_def float_eval)

section \<open>The store across a pass\<close>

text \<open>
  C8, amended. A pass that read the live positions and converted the fields of each
  hands \<open>_save_data\<close> the store it ends with, and that store holds records only for
  symbols among the live positions; when the gateway returns no positions the store is
  emptied and the empty store is saved. The pass leaves no exception.
\<close>

theorem no_orphaned_records:
  assumes "get_all_positions gw = Some ps" and "\<forall>p \<in> set ps. readable p"
  shows "saved (monitor_and_execute cfg gw rd) = Some (risk_data (monitor_and_execute cfg gw rd)) \<and>
         dom (risk_data (monitor_and_execute cfg gw rd)) \<subseteq> symbol ` set ps \<and>
         raised (monitor_and_execute cfg gw rd) = None \<and>
         (ps = [] \<longrightarrow> risk_data (monitor_and_execute cfg gw rd) = Map.empty \<and>
                     saved (monitor_and_execute cfg gw rd) = Some Map.empty)"
proof (intro conjI impI)
  show "saved (monitor_and_execute cfg gw rd) = Some (risk_data (monitor_and_execute cfg gw rd))"
    using assms by (rule pass_saved)
  show "dom (risk_data (monitor_and_execute cfg gw rd)) \<subseteq> symbol ` set ps"
    using assms by (rule pass_dom)
  show "raised (monitor_and_execute cfg gw rd) = None"
    using assms by (intro pass_raised) simp
next
  assume "ps = []"
  with assms(1) show "risk_data (monitor_and_execute cfg gw rd) = Map.empty"
    by (simp add: pass_no_positions)
next
  assume "ps = []"
  with assms(1) show "saved (monitor_and_execute cfg gw rd) = Some Map.empty"
    by (simp add: pass_no_positions)
qed

text \<open>
  C8, amended, at a store that holds a TSLA record while the only live position is AAPL,
  and at a gateway that returns no positions.
\<close>

theorem no_orphaned_records_witness:
  "get_all_positions (holding_gateway [scenario1_position]) = Some [scenario1_position] \<and>
   readable scenario1_position \<and>
   one_record ''TSLA'' 180 SHORT ''TSLA'' = Some \<lparr>extreme_price = Fin 180, side = SHORT\<rparr> \<and>
   dom (risk_data (monitor_and_execute default_cfg (holding_gateway [scenario1_position])
                     (one_record ''TSLA'' 180 SHORT))) \<subseteq> {''AAPL''} \<and>
   saved (monitor_and_execute default_cfg (holding_gateway [scenario1_position])
            (one_record ''TSLA'' 180 SHORT)) =
     Some (risk_data (monitor_and_execute default_cfg (holding_gateway [scenario1_position])
                        (one_record ''TSLA'' 180 SHORT))) \<and>
   get_all_positions (holding_gateway []) = Some [] \<and>
   risk_data (monitor_and_execute default_cfg (holding_gateway []) (one_record ''TSLA'' 180 SHORT)) =
     Map.empty \<and>
   saved (monitor_and_execute default_cfg (holding_gateway []) (one_record ''TSLA'' 180 SHORT)) =
     Some Map.empty"
  using no_orphaned_records [where gw = "holding_gateway [scenario1_position]"
          and ps = "[scenario1_position]" and cfg = default_cfg
          and rd = "one_record ''TSLA'' 180 SHORT"]
        no_orphaned_records [where gw = "holding_gateway []" and ps = "[]" and cfg = default_cfg
          and rd = "one_record ''TSLA'' 180 SHORT"]
  by (simp add: scenario1_position_def one_record_def)

text \<open>
  C8, as stated. The only live position is AAPL and its current price is \<open>None\<close>: the
  pass read the live positions, \<open>float(position.current_price)\<close> raises \<open>TypeError\<close>,
  nothing is saved and the store still holds the TSLA record.
\<close>

theorem unreadable_price_keeps_orphans:
  "get_all_positions (holding_gateway [unpriced_position]) = Some [unpriced_position] \<and>
   current_price unpriced_position = NoneValue \<and>
   one_record ''TSLA'' 180 SHORT ''TSLA'' = Some \<lparr>extreme_price = Fin 180, side = SHORT\<rparr> \<and>
   ''TSLA'' \<notin> symbol ` set [unpriced_position] \<and>
   raised (monitor_and_execute default_cfg (holding_gateway [unpriced_position])
             (one_record ''TSLA'' 180 SHORT)) = Some TypeError \<and>
   saved (monitor_and_execute default_cfg (holding_gateway [unpriced_position])
            (one_record ''TSLA'' 180 SHORT)) = None \<and>
   risk_data (monitor_and_execute default_cfg (holding_gateway [unpriced_position])
                (one_record ''TSLA'' 180 SHORT)) ''TSLA'' =
     Some \<lparr>extreme_price = Fin 180, side = SHORT\<rparr>"
proof -
  have u: "read_position unpriced_position = Inl TypeError"
    by (simp add: unpriced_position_def held_def read_position_def and_then_def)
  have m: "monitor_loop default_cfg (holding_gateway [unpriced_position]) [unpriced_position]
             (fresh_state (one_record ''TSLA'' 180 SHORT)) =
           (fresh_state (one_record ''TSLA'' 180 SHORT))
             \<lparr>current_symbols := [symbol unpriced_position], raised := Some TypeError\<rparr>"
    by (simp add: monitor_position_unread [OF u] fresh_state_def)
  have n: "raised (monitor_loop default_cfg (holding_gateway [unpriced_position]) [unpriced_position]
             (fresh_state (one_record ''TSLA'' 180 SHORT))) \<noteq> None"
    unfolding m by simp
  have p: "monitor_and_execute default_cfg (holding_gateway [unpriced_position])
             (one_record ''TSLA'' 180 SHORT) =
           (fresh_state (one_record ''TSLA'' 180 SHORT))
             \<lparr>current_symbols := [symbol unpriced_position], raised := Some TypeError\<rparr>"
    using pass_aborted [OF gateway_positions(1) _ n] m by simp
  show ?thesis unfolding p
    by (simp add: fresh_state_def one_record_def unpriced_position_def held_def)
qed

section \<open>Closing orders whose submission fails\<close>



section \<open>The extreme price along a run of passes\<close>

lemma next_record_kept:
  assumes n: "next_record cfg v (Some r) = Some r'"
  shows "r' = r \<or>
         (r' = r\<lparr>extreme_price := current v\<rparr> \<and>
          (if flt (Fin 0) (signed_qty v) then flt (extreme_price r) (current v)
           else flt (current v) (extreme_price r)))"
proof (cases "improves v (Some r)")
  case True
  with n have "r' = r\<lparr>extreme_price := current v\<rparr>"
    by (auto simp: next_record_def seeded_def tracked_def split: if_splits)
  with True show ?thesis
    by (cases "flt (Fin 0) (signed_qty v)") (simp_all add: improves_def seeded_def)
next
  case False
  with n have "r' = r"
    by (auto simp: next_record_def seeded_def tracked_def split: if_splits)
  then show ?thesis ..
qed

lemma pass_step_record:
  assumes g: "get_all_positions gw = Some ps" and d: "distinct (map symbol ps)"
    and rd: "\<forall>p \<in> set ps. readable p"
    and r: "rd s = Some r"
    and r': "risk_data (monitor_and_execute cfg gw rd) s = Some r'"
  shows "r' = r \<or>
         (\<exists>p \<in> set ps. symbol p = s \<and> r' = r\<lparr>extreme_price := current (values_of p)\<rparr> \<and>
            (if flt (Fin 0) (signed_qty (values_of p))
             then flt (extreme_price r) (current (values_of p))
             else flt (current (values_of p)) (extreme_price r)))"
proof -
  from r' obtain p where f: "find (\<lambda>p. symbol p = s) ps = Some p"
    and n: "next_record cfg (values_of p) (rd s) = Some r'"
    unfolding pass_store [OF g rd d] by (auto split: option.splits)
  from f have m: "p \<in> set ps \<and> symbol p = s" by (rule find_Some_set)
  from n have "next_record cfg (values_of p) (Some r) = Some r'" unfolding r .
  then have "r' = r \<or>
         (r' = r\<lparr>extreme_price := current (values_of p)\<rparr> \<and>
          (if flt (Fin 0) (signed_qty (values_of p)) then flt (extreme_price r) (current (values_of p))
           else flt (current (values_of p)) (extreme_price r)))"
    by (rule next_record_kept)
  with m show ?thesis by blast
qed

lemma no_worse_trans: "no_worse l a b \<Longrightarrow> no_worse l b c \<Longrightarrow> no_worse l a c"
  unfolding no_worse_def by (cases l) (auto intro: flt_trans)

lemma pass_step_no_worse:
  assumes h: "\<forall>ps. get_all_positions gw = Some ps \<longrightarrow>
                distinct (map symbol ps) \<and> (\<forall>p \<in> set ps. readable p) \<and>
                (\<forall>p \<in> set ps. symbol p = s \<longrightarrow> flt (Fin 0) (signed_qty (values_of p)) = is_long)"
    and r: "rd s = Some r"
    and r': "risk_data (monitor_and_execute cfg gw rd) s = Some r'"
  shows "no_worse is_long r r'"
proof (cases "get_all_positions gw")
  case None
  with r r' have "r' = r" by (simp add: pass_failed_read fresh_state_def)
  then show ?thesis by (simp add: no_worse_def)
next
  case (Some ps)
  with h have d: "distinct (map symbol ps)" and rd: "\<forall>p \<in> set ps. readable p"
    and l: "\<forall>p \<in> set ps. symbol p = s \<longrightarrow> flt (Fin 0) (signed_qty (values_of p)) = is_long"
    by simp_all
  from pass_step_record [OF Some d rd r r'] show ?thesis
  proof
    assume "r' = r"
    then show ?thesis by (simp add: no_worse_def)
  next
    assume "\<exists>p \<in> set ps. symbol p = s \<and> r' = r\<lparr>extreme_price := current (values_of p)\<rparr> \<and>
            (if flt (Fin 0) (signed_qty (values_of p))
             then flt (extreme_price r) (current (values_of p))
             else flt (current (values_of p)) (extreme_price r))"
    then obtain p where p: "p \<in> set ps" "symbol p = s"
      "r' = r\<lparr>extreme_price := current (values_of p)\<rparr>"
      "if flt (Fin 0) (signed_qty (values_of p))
             then flt (extreme_price r) (current (values_of p))
             else flt (current (values_of p)) (extreme_price r)" by blast
    from l p(1,2) have "flt (Fin 0) (signed_qty (values_of p)) = is_long" by simp
    with p(3,4) show ?thesis by (cases is_long) (simp_all add: no_worse_def)
  qed
qed

lemma records_no_worse:
  assumes held: "\<forall>gw \<in> set gws. \<forall>ps. get_all_positions gw = Some ps \<longrightarrow>
                   distinct (map symbol ps) \<and> (\<forall>p \<in> set ps. readable p) \<and>
                   (\<forall>p \<in> set ps. symbol p = s \<longrightarrow>
                      flt (Fin 0) (signed_qty (values_of p)) = is_long)"
    and kept: "\<forall>rd' \<in> set (rd # run_passes cfg gws rd). s \<in> dom rd'"
  shows "sorted_wrt (no_worse is_long) (records_of s (rd # run_passes cfg gws rd))"
  using held kept
proof (induction gws arbitrary: rd)
  case Nil
  then show ?case by (auto split: option.splits)
next
  case (Cons gw gws)
  let ?rd' = "risk_data (monitor_and_execute cfg gw rd)"
  from Cons.prems(2) obtain r where r: "rd s = Some r" by (auto simp: Let_def)
  from Cons.prems(2) obtain r' where r': "?rd' s = Some r'" by (auto simp: Let_def)
  have h: "\<forall>ps. get_all_positions gw = Some ps \<longrightarrow>
             distinct (map symbol ps) \<and> (\<forall>p \<in> set ps. readable p) \<and>
             (\<forall>p \<in> set ps. symbol p = s \<longrightarrow> flt (Fin 0) (signed_qty (values_of p)) = is_long)"
    using Cons.prems(1) by simp
  have step: "no_worse is_long r r'"
    using h r r' by (rule pass_step_no_worse)
  have ih: "sorted_wrt (no_worse is_long) (records_of s (?rd' # run_passes cfg gws ?rd'))"
    using Cons.prems by (intro Cons.IH) (auto simp: Let_def)
  have e1: "records_of s (rd # run_passes cfg (gw # gws) rd) =
            r # records_of s (?rd' # run_passes cfg gws ?rd')"
    using r by (simp add: Let_def)
  have e2: "records_of s (?rd' # run_passes cfg gws ?rd') =
            r' # records_of s (run_passes cfg gws ?rd')"
    using r' by simp
  from ih have tl: "\<forall>y \<in> set (records_of s (run_passes cfg gws ?rd')). no_worse is_long r' y"
    unfolding e2 by simp
  have "\<forall>y \<in> set (records_of s (?rd' # run_passes cfg gws ?rd')). no_worse is_long r y"
    unfolding e2 using step tl by (auto intro: no_worse_trans)
  with ih show ?case unfolding e1 by simp
qed

text \<open>
  C5, amended. The direction of the update is taken from the live position's signed
  quantity, not from the record's stored side. A pass over positions whose fields
  convert, the gateway reporting each symbol once, leaves a surviving record as it was
  or replaces its extreme price by the position's current price, which is then strictly
  more favourable for the live position's direction; the stored side is never changed.
  Along every run of such passes through which the record of a symbol survives, every
  later record has the same side and an extreme price that is the same or strictly
  higher while the live position is long (\<open>float(position.qty) > 0\<close>), the same or
  strictly lower while it is not.
\<close>

theorem extreme_price_monotone:
  "(get_all_positions gw = Some ps \<and> distinct (map symbol ps) \<and> (\<forall>p \<in> set ps. readable p) \<and>
    rd s = Some r \<and> risk_data (monitor_and_execute cfg gw rd) s = Some r' \<longrightarrow>
      r' = r \<or>
      (\<exists>p \<in> set ps. symbol p = s \<and> r' = r\<lparr>extreme_price := current (values_of p)\<rparr> \<and>
         (if flt (Fin 0) (signed_qty (values_of p))
          then flt (extreme_price r) (current (values_of p))
          else flt (current (values_of p)) (extreme_price r)))) \<and>
   ((\<forall>gw \<in> set gws. \<forall>ps. get_all_positions gw = Some ps \<longrightarrow>
        distinct (map symbol ps) \<and> (\<forall>p \<in> set ps. readable p) \<and>
        (\<forall>p \<in> set ps. symbol p = s \<longrightarrow> flt (Fin 0) (signed_qty (values_of p)) = is_long)) \<and>
    (\<forall>rd' \<in> set (rd # run_passes cfg gws rd). s \<in> dom rd') \<longrightarrow>
      sorted_wrt (no_worse is_long) (records_of s (rd # run_passes cfg gws rd)))"
proof (intro conjI impI)
  assume a: "get_all_positions gw = Some ps \<and> distinct (map symbol ps) \<and>
             (\<forall>p \<in> set ps. readable p) \<and>
             rd s = Some r \<and> risk_data (monitor_and_execute cfg gw rd) s = Some r'"
  then have g: "get_all_positions gw = Some ps" and d: "distinct (map symbol ps)"
    and r: "rd s = Some r" and r': "risk_data (monitor_and_execute cfg gw rd) s = Some r'"
    by simp_all
  from a have rb: "\<forall>p \<in> set ps. readable p" by simp
  from g d rb r r' show "r' = r \<or>
      (\<exists>p \<in> set ps. symbol p = s \<and> r' = r\<lparr>extreme_price := current (values_of p)\<rparr> \<and>
         (if flt (Fin 0) (signed_qty (values_of p))
          then flt (extreme_price r) (current (values_of p))
          else flt (current (values_of p)) (extreme_price r)))"
    by (rule pass_step_record)
next
  assume a: "(\<forall>gw \<in> set gws. \<forall>ps. get_all_positions gw = Some ps \<longrightarrow>
        distinct (map symbol ps) \<and> (\<forall>p \<in> set ps. readable p) \<and>
        (\<forall>p \<in> set ps. symbol p = s \<longrightarrow> flt (Fin 0) (signed_qty (values_of p)) = is_long)) \<and>
    (\<forall>rd' \<in> set (rd # run_passes cfg gws rd). s \<in> dom rd')"
  then have h: "\<forall>gw \<in> set gws. \<forall>ps. get_all_positions gw = Some ps \<longrightarrow>
        distinct (map symbol ps) \<and> (\<forall>p \<in> set ps. readable p) \<and>
        (\<forall>p \<in> set ps. symbol p = s \<longrightarrow> flt (Fin 0) (signed_qty (values_of p)) = is_long)"
    and k: "\<forall>rd' \<in> set (rd # run_passes cfg gws rd). s \<in> dom rd'" by blast+
  from h k show "sorted_wrt (no_worse is_long) (records_of s (rd # run_passes cfg gws rd))"
    by (rule records_no_worse)
qed

text \<open>
  C5, amended, at a long AAPL seen at 105 and then at 103 with a record that starts at
  100: the extreme price goes to 105 and stays there.
\<close>

theorem extreme_price_monotone_witness:
  "get_all_positions (holding_gateway [held ''AAPL'' 10 100 105]) = Some [held ''AAPL'' 10 100 105] \<and>
   distinct (map symbol [held ''AAPL'' 10 100 105]) \<and> readable (held ''AAPL'' 10 100 105) \<and>
   flt (Fin 0) (signed_qty (values_of (held ''AAPL'' 10 100 105))) \<and>
   distinct (map symbol [held ''AAPL'' 10 100 103]) \<and> readable (held ''AAPL'' 10 100 103) \<and>
   flt (Fin 0) (signed_qty (values_of (held ''AAPL'' 10 100 103))) \<and>
   records_of ''AAPL''
     (one_record ''AAPL'' 100 LONG #
      run_passes default_cfg
        [holding_gateway [held ''AAPL'' 10 100 105], holding_gateway [held ''AAPL'' 10 100 103]]
        (one_record ''AAPL'' 100 LONG)) =
     [\<lparr>extreme_price = Fin 100, side = LONG\<rparr>, \<lparr>extreme_price = Fin 105, side = LONG\<rparr>,
      \<lparr>extreme_price = Fin 105, side = LONG\<rparr>] \<and>
   sorted_wrt (no_worse True)
     (records_of ''AAPL''
        (one_record ''AAPL'' 100 LONG #
         run_passes default_cfg
           [holding_gateway [held ''AAPL'' 10 100 105], holding_gateway [held ''AAPL'' 10 100 103]]
           (one_record ''AAPL'' 100 LONG))) \<and>
   (\<exists>p \<in> set [held ''AAPL'' 10 100 105]. symbol p = ''AAPL'' \<and>
      \<lparr>extreme_price = Fin 105, side = LONG\<rparr> =
        \<lparr>extreme_price = Fin 100, side = LONG\<rparr>\<lparr>extreme_price := current (values_of p)\<rparr> \<and>
      flt (Fin 100) (current (values_of p)))"
proof -
  let ?p1 = "held ''AAPL'' 10 100 105"
  let ?p2 = "held ''AAPL'' 10 100 103"
  let ?g1 = "holding_gateway [?p1]"
  let ?g2 = "holding_gateway [?p2]"
  let ?rd0 = "one_record ''AAPL'' 100 LONG"
  let ?rd1 = "risk_data (monitor_and_execute default_cfg ?g1 ?rd0)"
  let ?rd2 = "risk_data (monitor_and_execute default_cfg ?g2 ?rd1)"
  let ?r0 = "\<lparr>extreme_price = Fin 100, side = LONG\<rparr>"
  let ?r1 = "\<lparr>extreme_price = Fin 105, side = LONG\<rparr>"
  have a0: "?rd0 ''AAPL'' = Some ?r0" by (simp add: one_record_def)
  have a1: "?rd1 ''AAPL'' = Some ?r1"
    by (simp add: single_store [OF gateway_positions(1) read_held] step_defs stop_levels_def
          one_record_def default_products more_products py_max_def fle_def feq_def Let_def)
  have a2: "?rd2 ''AAPL'' = Some ?r1"
  proof -
    have "?rd2 ''AAPL'' =
          next_record default_cfg \<lparr>signed_qty = Fin 10, entry = Fin 100, current = Fin 103\<rparr>
            (?rd1 ''AAPL'')"
      using single_store [where p = ?p2 and gw = ?g2 and cfg = default_cfg and rd = ?rd1
          and s = "''AAPL''", OF gateway_positions(1) read_held]
      by simp
    then show ?thesis unfolding a1
      by (simp add: step_defs stop_levels_def default_products more_products py_max_def fle_def
            feq_def Let_def)
  qed
  have r: "run_passes default_cfg [?g1, ?g2] ?rd0 = [?rd1, ?rd2]" by (simp add: Let_def)
  have e: "records_of ''AAPL'' (?rd0 # run_passes default_cfg [?g1, ?g2] ?rd0) = [?r0, ?r1, ?r1]"
    unfolding r using a0 a1 a2 by simp
  have held: "\<forall>gw \<in> set [?g1, ?g2]. \<forall>ps. get_all_positions gw = Some ps \<longrightarrow>
                distinct (map symbol ps) \<and> (\<forall>p \<in> set ps. readable p) \<and>
                (\<forall>p \<in> set ps. symbol p = ''AAPL'' \<longrightarrow>
                   flt (Fin 0) (signed_qty (values_of p)) = True)"
    by simp
  have kept: "\<forall>rd' \<in> set (?rd0 # run_passes default_cfg [?g1, ?g2] ?rd0). ''AAPL'' \<in> dom rd'"
    unfolding r using a0 a1 a2 by (simp add: domIff)
  note t = extreme_price_monotone [where gws = "[?g1, ?g2]" and rd = ?rd0 and cfg = default_cfg
      and s = "''AAPL''" and is_long = True and gw = ?g1 and ps = "[?p1]" and r = ?r0 and r' = ?r1]
  have m: "sorted_wrt (no_worse True)
             (records_of ''AAPL'' (?rd0 # run_passes default_cfg [?g1, ?g2] ?rd0))"
    using t held kept by blast
  have "?r1 = ?r0 \<or>
        (\<exists>p \<in> set [?p1]. symbol p = ''AAPL'' \<and> ?r1 = ?r0\<lparr>extreme_price := current (values_of p)\<rparr> \<and>
           (if flt (Fin 0) (signed_qty (values_of p))
            then flt (extreme_price ?r0) (current (values_of p))
            else flt (current (values_of p)) (extreme_price ?r0)))"
    using t a0 a1 by simp
  then have u: "\<exists>p \<in> set [?p1]. symbol p = ''AAPL'' \<and>
      ?r1 = ?r0\<lparr>extreme_price := current (values_of p)\<rparr> \<and> flt (Fin 100) (current (values_of p))"
    by simp
  show ?thesis using e m u by (intro conjI) simp_all
qed

text \<open>
  C5, as stated. A record stored with side LONG and extreme price 110, met by a live
  position that is now short at 100, leaves the pass with side LONG and extreme price 100.
\<close>

theorem extreme_moves_against_stored_side:
  "one_record ''AAPL'' 110 LONG ''AAPL'' = Some \<lparr>extreme_price = Fin 110, side = LONG\<rparr> \<and>
   risk_data (monitor_and_execute default_cfg (holding_gateway [flipped_position])
                (one_record ''AAPL'' 110 LONG)) ''AAPL'' =
     Some \<lparr>extreme_price = Fin 100, side = LONG\<rparr> \<and>
   records_of ''AAPL''
     (one_record ''AAPL'' 110 LONG #
      run_passes default_cfg [holding_gateway [flipped_position]] (one_record ''AAPL'' 110 LONG)) =
     [\<lparr>extreme_price = Fin 110, side = LONG\<rparr>, \<lparr>extreme_price = Fin 100, side = LONG\<rparr>] \<and>
   flt (Fin 100) (Fin 110)"
proof -
  have a: "risk_data (monitor_and_execute default_cfg (holding_gateway [flipped_position])
                (one_record ''AAPL'' 110 LONG)) ''AAPL'' =
     Some \<lparr>extreme_price = Fin 100, side = LONG\<rparr>"
    unfolding flipped_position_def single_store [OF gateway_positions(1) read_held]
    by (simp add: step_defs stop_levels_def one_record_def more_products py_min_def fle_def
          feq_def Let_def)
  show ?thesis using a by (simp add: one_record_def Let_def)
qed

section \<open>The loop of the trader\<close>

lemmas trader_defs = execute_decisions_def execute_decision_def safety_check_def
  get_live_portfolio_def get_realtime_price_def trading_gateway_def quote_of_def accept_all_def
  no_quote_def py_upper_def upper_char_def py_trunc_def format_position_def read_action_def
  read_quantity_def and_then_def decide_def Let_def

lemma and_then_Inl [simp]: "and_then (Inl e) f = Inl e"
  by (simp add: and_then_def)

lemma and_then_Inr [simp]: "and_then (Inr v) f = f v"
  by (simp add: and_then_def)

lemma cash_10000 [simp]: "round64 10000 = Fin 10000"
  by (simp add: float_eval)

lemma execute_decision_returns:
  "returns b gw pf item \<Longrightarrow> execute_decision b gw pf item = Inr (item_events b gw pf item)"
  by (simp add: returns_def item_events_def split: sum.splits)

lemma decisions_loop_append:
  "decisions_loop b gw pf (xs @ ys) printed =
     (if escaped (decisions_loop b gw pf xs printed) = None
      then decisions_loop b gw pf ys (trade_log (decisions_loop b gw pf xs printed))
      else decisions_loop b gw pf xs printed)"
  by (induction xs arbitrary: printed) (simp_all split: sum.splits)

lemma decisions_loop_returning:
  "\<forall>item \<in> set ds. returns b gw pf item \<Longrightarrow>
   decisions_loop b gw pf ds printed =
     \<lparr>trade_log = printed @ concat (map (item_events b gw pf) ds), escaped = None\<rparr>"
  by (induction ds arbitrary: printed) (simp_all add: execute_decision_returns)

lemma unread_action: "read_action d = Inl e \<Longrightarrow> execute_decision b gw pf (t, d) = Inl e"
  by (simp add: execute_decision_def Let_def)

lemma unread_quantity:
  "read_action d = Inr act \<Longrightarrow> read_quantity d = Inl e \<Longrightarrow> execute_decision b gw pf (t, d) = Inl e"
  by (simp add: execute_decision_def Let_def)

lemma read_action_error: "read_action d = Inl e \<Longrightarrow> e = AttributeError"
  by (auto simp: read_action_def split: option.splits action_value.splits)

lemma int_of_float_error: "int_of_float x = Inl e \<Longrightarrow> e = OverflowError \<or> e = ValueError"
  by (cases x) auto

lemma py_int_error: "py_int v = Inl e \<Longrightarrow> e = ValueError \<or> e = TypeError \<or> e = OverflowError"
  by (cases v) (auto dest: int_of_float_error)

lemma read_quantity_error:
  "read_quantity d = Inl e \<Longrightarrow> e = ValueError \<or> e = TypeError \<or> e = OverflowError"
  unfolding read_quantity_def by (rule py_int_error)

lemma trading_submit [simp]: "submit_order (trading_gateway c ps quotes) od = True"
  by (simp add: trading_gateway_def accept_all_def)

lemma plain_check:
  "act \<notin> {''BUY'', ''SELL'', ''COVER''} \<Longrightarrow>
   \<exists>sd why. safety_check b gw c t act q long_qty short_qty = Inr (sd, why, q)"
  by (simp add: safety_check_def)

lemma plain_returns:
  assumes "read_action d = Inr act" and "read_quantity d = Inr q"
    and "act \<notin> {''BUY'', ''SELL'', ''COVER''}"
  shows "returns b gw pf (t, d)"
proof (cases "q \<le> 0 \<or> act = ''HOLD''")
  case True
  with assms(1,2) show ?thesis by (auto simp: returns_def execute_decision_def Let_def)
next
  case False
  obtain sd why where
    "safety_check b gw (cash pf) t act q
       (case positions pf t of None \<Rightarrow> Fin 0 | Some h \<Rightarrow> long h)
       (case positions pf t of None \<Rightarrow> Fin 0 | Some h \<Rightarrow> short h) = Inr (sd, why, q)"
    using plain_check [OF assms(3)] by blast
  with False assms(1,2) show ?thesis
    by (cases sd; cases why) (simp_all add: returns_def execute_decision_def Let_def)
qed

lemma safety_check_submit [simp]:
  "safety_check b (gw\<lparr>submit_order := f\<rparr>) = safety_check b gw"
  by (intro ext) (simp add: safety_check_def get_realtime_price_def)

lemma returns_submit:
  "returns b (gw\<lparr>submit_order := f\<rparr>) pf item = returns b gw pf item"
  by (cases "read_action (snd item)"; cases "read_quantity (snd item)")
     (auto simp: returns_def execute_decision_def Let_def and_then_def
           split: sum.splits prod.splits option.splits)

text \<open>
  C9, amended. Once the portfolio has been read, a batch all of whose items return
  from the loop body leaves no exception and every item is validated and submitted on
  its own; whether an item returns does not depend on which submissions raise. An item
  whose loop body raises is not refused as a single item: the exception leaves
  \<open>execute_decisions\<close> there, after the items before it and without the items after it.
  An action without \<open>upper\<close> raises \<open>AttributeError\<close>, a quantity that \<open>int(...)\<close> rejects
  raises \<open>ValueError\<close>, \<open>TypeError\<close> or \<open>OverflowError\<close>; an item with a string action
  other than BUY, SELL and COVER and a quantity that converts returns.
\<close>

theorem batch_continues_while_items_return:
  assumes "get_live_portfolio gw = Inr pf"
  shows "((\<forall>item \<in> set decisions. returns b gw pf item) \<longrightarrow>
            execute_decisions b gw decisions =
              \<lparr>trade_log = concat (map (item_events b gw pf) decisions), escaped = None\<rparr>) \<and>
         ((\<forall>item \<in> set before. returns b gw pf item) \<and> execute_decision b gw pf bad = Inl e \<longrightarrow>
            execute_decisions b gw (before @ bad # rest) =
              \<lparr>trade_log = concat (map (item_events b gw pf) before), escaped = Some e\<rparr>) \<and>
         (read_action d = Inl e \<longrightarrow>
            e = AttributeError \<and> execute_decision b gw pf (t, d) = Inl e) \<and>
         (read_action d = Inr act \<and> read_quantity d = Inl e \<longrightarrow>
            (e = ValueError \<or> e = TypeError \<or> e = OverflowError) \<and>
            execute_decision b gw pf (t, d) = Inl e) \<and>
         (read_action d = Inr act \<and> read_quantity d = Inr q \<and>
          act \<notin> {''BUY'', ''SELL'', ''COVER''} \<longrightarrow> returns b gw pf (t, d)) \<and>
         returns b (gw\<lparr>submit_order := f\<rparr>) pf (t, d) = returns b gw pf (t, d)"
proof (intro conjI impI)
  assume "\<forall>item \<in> set decisions. returns b gw pf item"
  with assms show "execute_decisions b gw decisions =
      \<lparr>trade_log = concat (map (item_events b gw pf) decisions), escaped = None\<rparr>"
    by (simp add: execute_decisions_def decisions_loop_returning)
next
  assume a: "(\<forall>item \<in> set before. returns b gw pf item) \<and> execute_decision b gw pf bad = Inl e"
  then have r: "\<forall>item \<in> set before. returns b gw pf item"
    and x: "execute_decision b gw pf bad = Inl e" by simp_all
  show "execute_decisions b gw (before @ bad # rest) =
      \<lparr>trade_log = concat (map (item_events b gw pf) before), escaped = Some e\<rparr>"
    using assms x by (simp add: execute_decisions_def decisions_loop_append
        decisions_loop_returning [OF r])
next
  assume "read_action d = Inl e"
  then show "e = AttributeError" by (rule read_action_error)
next
  assume "read_action d = Inl e"
  then show "execute_decision b gw pf (t, d) = Inl e" by (rule unread_action)
next
  assume "read_action d = Inr act \<and> read_quantity d = Inl e"
  then have "read_quantity d = Inl e" by simp
  then show "e = ValueError \<or> e = TypeError \<or> e = OverflowError" by (rule read_quantity_error)
next
  assume "read_action d = Inr act \<and> read_quantity d = Inl e"
  then show "execute_decision b gw pf (t, d) = Inl e" by (simp add: unread_quantity)
next
  assume "read_action d = Inr act \<and> read_quantity d = Inr q \<and>
          act \<notin> {''BUY'', ''SELL'', ''COVER''}"
  then have "read_action d = Inr act" "read_quantity d = Inr q"
    "act \<notin> {''BUY'', ''SELL'', ''COVER''}" by simp_all
  then show "returns b gw pf (t, d)" by (rule plain_returns)
next
  show "returns b (gw\<lparr>submit_order := f\<rparr>) pf (t, d) = returns b gw pf (t, d)"
    by (rule returns_submit)
qed

lemma empty_portfolio:
  "get_live_portfolio ((trading_gateway 10000 [] quotes)\<lparr>submit_order := f\<rparr>) =
     Inr \<lparr>cash = Fin 10000, positions = Map.empty, equity = Fin 10000\<rparr>"
  "get_live_portfolio (trading_gateway 10000 [] quotes) =
     Inr \<lparr>cash = Fin 10000, positions = Map.empty, equity = Fin 10000\<rparr>"
  by (simp_all add: get_live_portfolio_def trading_gateway_def)

lemma short_item:
  "0 < n \<Longrightarrow> positions pf t = None \<Longrightarrow>
   execute_decision b gw pf (t, decide ''SHORT'' n) =
     Inr [if submit_order gw \<lparr>order_symbol = t, order_qty = Shares n, order_side = SELL,
                              order_tif = DAY\<rparr>
          then Submitted ''SHORT'' \<lparr>order_symbol = t, order_qty = Shares n, order_side = SELL,
                                     order_tif = DAY\<rparr>
          else SubmitFailed ''SHORT'' \<lparr>order_symbol = t, order_qty = Shares n, order_side = SELL,
                                        order_tif = DAY\<rparr>]"
  by (simp add: execute_decision_def read_action_def read_quantity_def decide_def py_upper_def
        upper_char_def safety_check_def Let_def)

text \<open>
  C9, amended, at a gateway that raises on the orders of AAPL: the SHORT of AAPL fails
  and the SHORT of MSFT is submitted; an AAPL decision whose action is \<open>None\<close> between
  two SHORT decisions ends the batch with \<open>AttributeError\<close> after the first.
\<close>

theorem batch_continues_while_items_return_witness:
  "get_live_portfolio ((trading_gateway 10000 [] no_quote)\<lparr>submit_order := reject_symbol ''AAPL''\<rparr>) =
     Inr \<lparr>cash = Fin 10000, positions = Map.empty, equity = Fin 10000\<rparr> \<and>
   returns default_buffer ((trading_gateway 10000 [] no_quote)\<lparr>submit_order := reject_symbol ''AAPL''\<rparr>)
     \<lparr>cash = Fin 10000, positions = Map.empty, equity = Fin 10000\<rparr> (''AAPL'', decide ''SHORT'' 10) \<and>
   returns default_buffer ((trading_gateway 10000 [] no_quote)\<lparr>submit_order := reject_symbol ''AAPL''\<rparr>)
     \<lparr>cash = Fin 10000, positions = Map.empty, equity = Fin 10000\<rparr> (''MSFT'', decide ''SHORT'' 5) \<and>
   execute_decisions default_buffer
     ((trading_gateway 10000 [] no_quote)\<lparr>submit_order := reject_symbol ''AAPL''\<rparr>)
     [(''AAPL'', decide ''SHORT'' 10), (''MSFT'', decide ''SHORT'' 5)] =
     \<lparr>trade_log = [SubmitFailed ''SHORT'' \<lparr>order_symbol = ''AAPL'', order_qty = Shares 10,
                                           order_side = SELL, order_tif = DAY\<rparr>,
                   Submitted ''SHORT'' \<lparr>order_symbol = ''MSFT'', order_qty = Shares 5,
                                        order_side = SELL, order_tif = DAY\<rparr>],
      escaped = None\<rparr> \<and>
   execute_decision default_buffer
     ((trading_gateway 10000 [] no_quote)\<lparr>submit_order := reject_symbol ''AAPL''\<rparr>)
     \<lparr>cash = Fin 10000, positions = Map.empty, equity = Fin 10000\<rparr>
     (''AAPL'', \<lparr>action = Some NoText, quantity = Some (QtyInt 5)\<rparr>) = Inl AttributeError \<and>
   execute_decisions default_buffer
     ((trading_gateway 10000 [] no_quote)\<lparr>submit_order := reject_symbol ''AAPL''\<rparr>)
     ([(''MSFT'', decide ''SHORT'' 5)] @
      (''AAPL'', \<lparr>action = Some NoText, quantity = Some (QtyInt 5)\<rparr>) #
      [(''GOOG'', decide ''SHORT'' 7)]) =
     \<lparr>trade_log = [Submitted ''SHORT'' \<lparr>order_symbol = ''MSFT'', order_qty = Shares 5,
                                        order_side = SELL, order_tif = DAY\<rparr>],
      escaped = Some AttributeError\<rparr>"
proof -
  let ?gw = "(trading_gateway 10000 [] no_quote)\<lparr>submit_order := reject_symbol ''AAPL''\<rparr>"
  let ?pf = "\<lparr>cash = Fin 10000, positions = Map.empty, equity = Fin 10000\<rparr>"
  let ?bad = "(''AAPL'', \<lparr>action = Some NoText, quantity = Some (QtyInt 5)\<rparr>)"
  have p: "get_live_portfolio ?gw = Inr ?pf" by (rule empty_portfolio)
  have s: "execute_decision default_buffer ?gw ?pf (t, decide ''SHORT'' n) =
             Inr [if submit_order ?gw \<lparr>order_symbol = t, order_qty = Shares n, order_side = SELL,
                              order_tif = DAY\<rparr>
          then Submitted ''SHORT'' \<lparr>order_symbol = t, order_qty = Shares n, order_side = SELL,
                                     order_tif = DAY\<rparr>
          else SubmitFailed ''SHORT'' \<lparr>order_symbol = t, order_qty = Shares n, order_side = SELL,
                                        order_tif = DAY\<rparr>]" if "0 < n" for t n
    using that by (intro short_item) simp_all
  have r1: "returns default_buffer ?gw ?pf (''AAPL'', decide ''SHORT'' 10)"
    by (simp add: returns_def s)
  have r2: "returns default_buffer ?gw ?pf (''MSFT'', decide ''SHORT'' 5)"
    by (simp add: returns_def s)
  have i1: "item_events default_buffer ?gw ?pf (''AAPL'', decide ''SHORT'' 10) =
      [SubmitFailed ''SHORT'' \<lparr>order_symbol = ''AAPL'', order_qty = Shares 10,
                                           order_side = SELL, order_tif = DAY\<rparr>]"
    by (simp add: item_events_def s reject_symbol_def)
  have i2: "item_events default_buffer ?gw ?pf (''MSFT'', decide ''SHORT'' 5) =
      [Submitted ''SHORT'' \<lparr>order_symbol = ''MSFT'', order_qty = Shares 5,
                                        order_side = SELL, order_tif = DAY\<rparr>]"
    by (simp add: item_events_def s reject_symbol_def)
  have x: "execute_decision default_buffer ?gw ?pf ?bad = Inl AttributeError"
    by (simp add: execute_decision_def read_action_def Let_def)
  note t = batch_continues_while_items_return [OF p, where b = default_buffer
      and decisions = "[(''AAPL'', decide ''SHORT'' 10), (''MSFT'', decide ''SHORT'' 5)]"
      and before = "[(''MSFT'', decide ''SHORT'' 5)]" and bad = ?bad and e = AttributeError
      and rest = "[(''GOOG'', decide ''SHORT'' 7)]"]
  have e1: "execute_decisions default_buffer ?gw
     [(''AAPL'', decide ''SHORT'' 10), (''MSFT'', decide ''SHORT'' 5)] =
     \<lparr>trade_log = [SubmitFailed ''SHORT'' \<lparr>order_symbol = ''AAPL'', order_qty = Shares 10,
                                           order_side = SELL, order_tif = DAY\<rparr>,
                   Submitted ''SHORT'' \<lparr>order_symbol = ''MSFT'', order_qty = Shares 5,
                                        order_side = SELL, order_tif = DAY\<rparr>],
      escaped = None\<rparr>"
    using t r1 r2 by (simp add: i1 i2)
  have e2: "execute_decisions default_buffer ?gw
     ([(''MSFT'', decide ''SHORT'' 5)] @ ?bad # [(''GOOG'', decide ''SHORT'' 7)]) =
     \<lparr>trade_log = [Submitted ''SHORT'' \<lparr>order_symbol = ''MSFT'', order_qty = Shares 5,
                                        order_side = SELL, order_tif = DAY\<rparr>],
      escaped = Some AttributeError\<rparr>"
    using t r2 x by (simp add: i2)
  show ?thesis by (intro conjI; fact)
qed

text \<open>
  C9, as stated. A non-numeric quantity on the first ticker, or an action that is
  \<open>None\<close>, leaves \<open>execute_decisions\<close> with the exception, and the well-formed SHORT
  on the second ticker, submitted when it stands alone, is never submitted.
\<close>

theorem malformed_quantity_escapes:
  "execute_decisions default_buffer (trading_gateway 10000 [] no_quote)
     [(''AAPL'', \<lparr>action = Some (ActionText ''SHORT''), quantity = Some QtyText\<rparr>),
      (''MSFT'', decide ''SHORT'' 10)] =
     \<lparr>trade_log = [], escaped = Some ValueError\<rparr> \<and>
   execute_decisions default_buffer (trading_gateway 10000 [] no_quote)
     [(''AAPL'', \<lparr>action = Some NoText, quantity = Some (QtyInt 5)\<rparr>),
      (''MSFT'', decide ''SHORT'' 10)] =
     \<lparr>trade_log = [], escaped = Some AttributeError\<rparr> \<and>
   execute_decisions default_buffer (trading_gateway 10000 [] no_quote)
     [(''MSFT'', decide ''SHORT'' 10)] =
     \<lparr>trade_log = [Submitted ''SHORT'' \<lparr>order_symbol = ''MSFT'', order_qty = Shares 10,
                                        order_side = SELL, order_tif = DAY\<rparr>],
      escaped = None\<rparr>"
  by (simp add: execute_decisions_def empty_portfolio short_item unread_action unread_quantity read_action_def read_quantity_def py_upper_def
        upper_char_def)

section \<open>Unknown actions\<close>

lemma unknown_action_check:
  "act \<notin> {''BUY'', ''SELL'', ''SHORT'', ''COVER'', ''HOLD''} \<Longrightarrow>
   safety_check b gw c ticker act q long_qty short_qty = Inr (None, None, q)"
  by (simp add: safety_check_def)

lemma decisions_loop_skip:
  "execute_decision b gw pf item = Inr [] \<Longrightarrow>
   decisions_loop b gw pf (before @ item # rest) printed = decisions_loop b gw pf (before @ rest) printed"
  by (simp add: decisions_loop_append)

text \<open>
  C10. A decision whose upper-cased action is none of BUY, SELL, SHORT, COVER, HOLD and
  whose quantity is positive prints and submits nothing, and the batch gives what it
  gives without that item.
\<close>

theorem unknown_action_ignored:
  assumes "read_action d = Inr act"
    and "act \<notin> {''BUY'', ''SELL'', ''SHORT'', ''COVER'', ''HOLD''}"
    and "read_quantity d = Inr q"
    and "0 < q"
  shows "execute_decision b gw pf (ticker, d) = Inr [] \<and>
         execute_decisions b gw (before @ (ticker, d) # rest) = execute_decisions b gw (before @ rest)"
proof -
  have h: "act \<noteq> ''HOLD''" using assms(2) by simp
  have one: "execute_decision b gw pf (ticker, d) = Inr []" for pf
    using assms(1,3,4) h unknown_action_check [OF assms(2)]
    by (simp add: execute_decision_def Let_def)
  then show ?thesis
    by (simp add: execute_decisions_def decisions_loop_skip split: sum.splits)
qed

text \<open>
  C10 at the action \<open>trim\<close> between two SHORT decisions: both are submitted.
\<close>

theorem unknown_action_ignored_witness:
  "read_action \<lparr>action = Some (ActionText ''trim''), quantity = Some (QtyInt 5)\<rparr> = Inr ''TRIM'' \<and>
   ''TRIM'' \<notin> {''BUY'', ''SELL'', ''SHORT'', ''COVER'', ''HOLD''} \<and>
   read_quantity \<lparr>action = Some (ActionText ''trim''), quantity = Some (QtyInt 5)\<rparr> = Inr 5 \<and>
   (0::int) < 5 \<and>
   execute_decisions default_buffer (trading_gateway 10000 [] no_quote)
     ([(''MSFT'', decide ''SHORT'' 5)] @
      (''AAPL'', \<lparr>action = Some (ActionText ''trim''), quantity = Some (QtyInt 5)\<rparr>) #
      [(''GOOG'', decide ''SHORT'' 7)]) =
     \<lparr>trade_log = [Submitted ''SHORT'' \<lparr>order_symbol = ''MSFT'', order_qty = Shares 5,
                                        order_side = SELL, order_tif = DAY\<rparr>,
                   Submitted ''SHORT'' \<lparr>order_symbol = ''GOOG'', order_qty = Shares 7,
                                        order_side = SELL, order_tif = DAY\<rparr>],
      escaped = None\<rparr>"
  using unknown_action_ignored
    [where d = "\<lparr>action = Some (ActionText ''trim''), quantity = Some (QtyInt 5)\<rparr>" and q = 5
       and act = "''TRIM''" and b = default_buffer
       and gw = "trading_gateway 10000 [] no_quote" and ticker = "''AAPL''"
       and before = "[(''MSFT'', decide ''SHORT'' 5)]" and rest = "[(''GOOG'', decide ''SHORT'' 7)]"]
  by (simp add: execute_decisions_def empty_portfolio short_item read_action_def read_quantity_def py_upper_def upper_char_def)

section \<open>COVER against a live short\<close>

text \<open>
  C2. The gateway reports a short position with a negative quantity, and
  \<open>get_live_portfolio\<close> stores that quantity unchanged under \<open>short\<close>; the COVER branch
  then finds \<open>short_qty <= 0\<close> and refuses. A COVER of 5 against a live short of 10 TSLA
  is refused with the no-short-position reason and nothing is submitted.
\<close>

theorem cover_on_live_short_refused:
  "pos_side scenario2_position = PosShort \<and> qty scenario2_position = Reads (Fin (- 10)) \<and>
   get_live_portfolio (trading_gateway 10000 [scenario2_position] no_quote) =
     Inr \<lparr>cash = Fin 10000,
          positions = Map.empty(''TSLA'' \<mapsto> \<lparr>long = Fin 0, short = Fin (- 10)\<rparr>),
          equity = Fin 10000\<rparr> \<and>
   execute_decisions default_buffer (trading_gateway 10000 [scenario2_position] no_quote)
     [(''TSLA'', decide ''COVER'' 5)]
   = \<lparr>trade_log = [Refused ''TSLA'' ''COVER'' NoShortPosition], escaped = None\<rparr>"
proof -
  have p: "get_live_portfolio (trading_gateway 10000 [scenario2_position] no_quote) =
     Inr \<lparr>cash = Fin 10000,
          positions = Map.empty(''TSLA'' \<mapsto> \<lparr>long = Fin 0, short = Fin (- 10)\<rparr>),
          equity = Fin 10000\<rparr>"
    by (simp add: get_live_portfolio_def trading_gateway_def scenario2_position_def held_def
          format_position_def)
  show ?thesis unfolding execute_decisions_def p
    by (simp add: scenario2_position_def held_def execute_decision_def read_action_def
          read_quantity_def decide_def py_upper_def upper_char_def safety_check_def fle_def
          feq_def Let_def)
qed

section \<open>The BUY clamp\<close>

lemma price_of_quote:
  "0 < p \<Longrightarrow> get_realtime_price (trading_gateway c ps (quote_of t (Fin p) (Fin p))) t = Fin p"
  by (simp add: get_realtime_price_def trading_gateway_def quote_of_def float_eval)

lemma quote_two_percent_apart:
  "get_realtime_price
     (trading_gateway 10000 [] (quote_of ''MSFT'' (Fin (2296835809958953 / 2 ^ 51)) (Fin 1)))
     ''MSFT'' = Fin 1"
  by (simp add: get_realtime_price_def trading_gateway_def quote_of_def float_eval)

lemma portfolio_of_cash:
  "round64 c = Fin c \<Longrightarrow>
   get_live_portfolio (trading_gateway c [] quotes) =
     Inr \<lparr>cash = Fin c, positions = Map.empty, equity = Fin c\<rparr>"
  by (simp add: get_live_portfolio_def trading_gateway_def)

lemma buy_check:
  assumes "\<not> flt (Fin 0) short_qty" and "truthy (get_realtime_price gw ticker)"
    and "fdiv (fmul c (fsub (Fin 1) b)) (get_realtime_price gw ticker) = Inr room"
    and "int_of_float room = Inr max_qty"
    and "scaled b (if q > max_qty then max_qty else q) = Inr final"
  shows "safety_check b gw c ticker ''BUY'' q long_qty short_qty = Inr (Some BUY, None, final)"
  using assms by (simp add: safety_check_def Let_def)

text \<open>
  With cash that is not negative, a buffer within \<open>[0, 1]\<close> and a positive price, the
  scaled quantity is not negative and not above the double quotient.
\<close>

lemma buy_bound:
  assumes c: "0 \<le> c" and b0: "0 \<le> b" and b1: "b \<le> 1" and p: "0 < p" and q: "0 < q"
    and room: "fdiv (fmul (Fin c) (fsub (Fin 1) (Fin b))) (Fin p) = Inr room"
    and mq: "int_of_float room = Inr max_qty"
    and fin: "scaled (Fin b) (if q > max_qty then max_qty else q) = Inr final"
  shows "0 \<le> final \<and> fle (Fin (of_int final)) room"
proof -
  let ?reduced = "if q > max_qty then max_qty else q"
  have "\<exists>s. round64 (1 - b) = Fin s \<and> 0 \<le> s \<and> s \<le> 1"
    using b0 b1 round64_one by (intro round64_below [where z = 1]) simp_all
  then obtain s where s: "round64 (1 - b) = Fin s" "0 \<le> s" "s \<le> 1" by blast
  have fs: "fsub (Fin 1) (Fin b) = Fin s" using s(1) by (simp add: fsub_def)
  have cs: "0 \<le> c * s" using c s(2) by simp
  from round64_nonneg_cases [OF cs] obtain k where k: "round64 (c * s) = Fin k" "0 \<le> k"
  proof
    assume "round64 (c * s) = PInf"
    with room fs p have "room = PInf" by auto
    with mq show ?thesis by simp
  next
    assume "\<exists>r. round64 (c * s) = Fin r \<and> 0 \<le> r"
    then show ?thesis using that by blast
  qed
  have kp: "0 \<le> k / p" using k(2) p by simp
  from room fs k(1) p have rm: "room = round64 (k / p)" by auto
  from mq obtain r where r: "room = Fin r" by (cases room) simp_all
  with rm have rr: "round64 (k / p) = Fin r" by simp
  have r0: "0 \<le> r" using round64_fixed [OF kp rr] by simp
  from mq r have m: "max_qty = \<lfloor>r\<rfloor>" using r0 by (simp add: py_trunc_def)
  have m0: "0 \<le> max_qty" using r0 m by simp
  have red0: "0 \<le> ?reduced" using m0 q by simp
  have "real_of_int ?reduced \<le> real_of_int max_qty" by simp
  also have "\<dots> \<le> r" unfolding m by simp
  finally have redr: "real_of_int ?reduced \<le> r" .
  have "\<exists>f. round64 (real_of_int ?reduced) = Fin f \<and> 0 \<le> f \<and> f \<le> r"
    using red0 redr kp rr by (intro round64_below) simp_all
  then obtain f where f: "round64 (real_of_int ?reduced) = Fin f" "0 \<le> f" "f \<le> r" by blast
  have fi: "float_of_int ?reduced = Inr (Fin f)" using f(1) by (simp add: float_of_int_def)
  have "f * s \<le> f * 1" using f(2) s(3) by (intro mult_left_mono) simp_all
  with f(3) have fsr: "f * s \<le> r" by simp
  have fs0: "0 \<le> f * s" using f(2) s(2) by simp
  have "\<exists>t. round64 (f * s) = Fin t \<and> 0 \<le> t \<and> t \<le> r"
    using fs0 fsr kp rr by (rule round64_below)
  then obtain t where t: "round64 (f * s) = Fin t" "0 \<le> t" "t \<le> r" by blast
  from fin fi fs t(1) have "final = py_trunc t" by (simp add: scaled_def and_then_def)
  with t(2) have ft: "final = \<lfloor>t\<rfloor>" by (simp add: py_trunc_def)
  have f0: "0 \<le> final" using t(2) ft by simp
  have "real_of_int final \<le> t" unfolding ft by simp
  with t(3) have "real_of_int final \<le> r" by simp
  then have "fle (Fin (of_int final)) room" unfolding r by (auto simp: fle_def feq_def)
  with f0 show ?thesis ..
qed

text \<open>
  C4, amended. For a BUY decision with a positive quantity on a ticker whose snapshot
  holds no positive short quantity, when the live price is not 0: the quantity is
  reduced to \<open>int(cash * (1 - buffer) / live_price)\<close>, computed in double arithmetic and
  truncated toward zero, when it exceeds that number, then scaled to
  \<open>int(quantity * (1 - buffer))\<close>, again in double arithmetic, and a BUY order of that
  quantity is submitted. When cash is not negative, the buffer lies within \<open>[0, 1]\<close> and
  the live price is positive, the submitted quantity is not negative and does not exceed
  the double quotient \<open>cash * (1 - buffer) / live_price\<close>. In Scenario 3 the submitted
  quantity is 180.
\<close>

theorem buy_quantity_clamped:
  assumes "read_action d = Inr ''BUY''"
    and "read_quantity d = Inr q"
    and "0 < q"
    and "\<not> flt (Fin 0) (case positions pf ticker of None \<Rightarrow> Fin 0 | Some h \<Rightarrow> short h)"
    and "truthy (get_realtime_price gw ticker)"
    and "fdiv (fmul (cash pf) (fsub (Fin 1) b)) (get_realtime_price gw ticker) = Inr room"
    and "int_of_float room = Inr max_qty"
    and "scaled b (if q > max_qty then max_qty else q) = Inr final"
  shows "(let order_data = \<lparr>order_symbol = ticker, order_qty = Shares final,
                             order_side = BUY, order_tif = DAY\<rparr>
          in execute_decision b gw pf (ticker, d) =
               Inr [if submit_order gw order_data then Submitted ''BUY'' order_data
                    else SubmitFailed ''BUY'' order_data]) \<and>
         (cash pf = Fin c \<and> 0 \<le> c \<and> b = Fin \<beta> \<and> 0 \<le> \<beta> \<and> \<beta> \<le> 1 \<and>
          get_realtime_price gw ticker = Fin p \<and> 0 < p \<longrightarrow>
            0 \<le> final \<and> fle (Fin (of_int final)) room) \<and>
         execute_decisions default_buffer (trading_gateway 10000 [] (quote_of ''MSFT'' (Fin 50) (Fin 50)))
           [(''MSFT'', decide ''BUY'' 1000)] =
           \<lparr>trade_log = [Submitted ''BUY'' \<lparr>order_symbol = ''MSFT'', order_qty = Shares 180,
                                            order_side = BUY, order_tif = DAY\<rparr>],
            escaped = None\<rparr>"
proof (intro conjI impI)
  have chk: "safety_check b gw (cash pf) ticker ''BUY'' q
               (case positions pf ticker of None \<Rightarrow> Fin 0 | Some h \<Rightarrow> long h)
               (case positions pf ticker of None \<Rightarrow> Fin 0 | Some h \<Rightarrow> short h) =
             Inr (Some BUY, None, final)"
    using assms(4-8) by (rule buy_check)
  show "let order_data = \<lparr>order_symbol = ticker, order_qty = Shares final,
                             order_side = BUY, order_tif = DAY\<rparr>
          in execute_decision b gw pf (ticker, d) =
               Inr [if submit_order gw order_data then Submitted ''BUY'' order_data
                    else SubmitFailed ''BUY'' order_data]"
    using assms(1,2,3) chk by (simp add: execute_decision_def Let_def)
next
  assume a: "cash pf = Fin c \<and> 0 \<le> c \<and> b = Fin \<beta> \<and> 0 \<le> \<beta> \<and> \<beta> \<le> 1 \<and>
             get_realtime_price gw ticker = Fin p \<and> 0 < p"
  then have c: "0 \<le> c" and b0: "0 \<le> \<beta>" and b1: "\<beta> \<le> 1" and p: "0 < p" by simp_all
  from a assms(6) have r: "fdiv (fmul (Fin c) (fsub (Fin 1) (Fin \<beta>))) (Fin p) = Inr room"
    by simp
  from a assms(8) have f: "scaled (Fin \<beta>) (if q > max_qty then max_qty else q) = Inr final"
    by simp
  from c b0 b1 p assms(3) r assms(7) f
  have "0 \<le> final \<and> fle (Fin (of_int final)) room" by (rule buy_bound)
  then show "0 \<le> final" and "fle (Fin (of_int final)) room" by simp_all
next
  have p: "get_realtime_price (trading_gateway 10000 [] (quote_of ''MSFT'' (Fin 50) (Fin 50))) ''MSFT'' =
           Fin 50"
    by (rule price_of_quote) simp
  have c: "safety_check default_buffer (trading_gateway 10000 [] (quote_of ''MSFT'' (Fin 50) (Fin 50)))
             (Fin 10000) ''MSFT'' ''BUY'' 1000 (Fin 0) (Fin 0) = Inr (Some BUY, None, 180)"
    by (rule buy_check [where room = "Fin 190" and max_qty = 190])
       (simp_all add: p truthy_def default_buffer_def scaled_def float_of_int_def py_trunc_def
          float_eval)
  show "execute_decisions default_buffer (trading_gateway 10000 [] (quote_of ''MSFT'' (Fin 50) (Fin 50)))
           [(''MSFT'', decide ''BUY'' 1000)] =
           \<lparr>trade_log = [Submitted ''BUY'' \<lparr>order_symbol = ''MSFT'', order_qty = Shares 180,
                                            order_side = BUY, order_tif = DAY\<rparr>],
            escaped = None\<rparr>"
    by (simp add: execute_decisions_def empty_portfolio execute_decision_def read_action_def
          read_quantity_def decide_def py_upper_def upper_char_def c Let_def)
qed

lemma buy_item:
  assumes "0 < n"
    and "get_realtime_price gw t = Fin p" and "p \<noteq> 0"
    and "fdiv (fmul c (fsub (Fin 1) b)) (Fin p) = Inr room"
    and "int_of_float room = Inr max_qty"
    and "scaled b (if n > max_qty then max_qty else n) = Inr final"
    and "submit_order gw \<lparr>order_symbol = t, order_qty = Shares final, order_side = BUY,
                            order_tif = DAY\<rparr>"
  shows "execute_decision b gw \<lparr>cash = c, positions = Map.empty, equity = c\<rparr>
           (t, decide ''BUY'' n) =
           Inr [Submitted ''BUY'' \<lparr>order_symbol = t, order_qty = Shares final, order_side = BUY,
                                     order_tif = DAY\<rparr>]"
proof -
  have "safety_check b gw c t ''BUY'' n (Fin 0) (Fin 0) = Inr (Some BUY, None, final)"
    using assms(2-6) by (intro buy_check) (simp_all add: truthy_def)
  with assms(1,7) show ?thesis
    by (simp add: execute_decision_def read_action_def read_quantity_def decide_def py_upper_def
          upper_char_def Let_def)
qed

lemma buy_floats:
  "fdiv (fmul (Fin 1536) (fsub (Fin 1) default_buffer)) (Fin (4278419646001971 / 2 ^ 48)) =
     Inr (Fin (6755399441055743 / 2 ^ 46))"
  "scaled default_buffer 95 = Inr 90"
  "fdiv (fmul (Fin (- 1000)) (fsub (Fin 1) default_buffer)) (Fin 50) = Inr (Fin (- 19))"
  "scaled default_buffer (- 19) = Inr (- 18)"
  "fdiv (fmul (Fin (4447974646926541 / 2 ^ 35)) (fsub (Fin 1) (Fin 0)))
     (Fin (8974829632419267 / 2 ^ 46)) = Inr (Fin 1015)"
  "scaled (Fin 0) 1015 = Inr 1015"
  "round64 1536 = Fin 1536"
  "round64 (- 1000) = Fin (- 1000)"
  "round64 (4447974646926541 / 2 ^ 35) = Fin (4447974646926541 / 2 ^ 35)"
  by (simp_all add: default_buffer_def scaled_def float_of_int_def py_trunc_def float_eval)

text \<open>
  C4, amended, at cash 1536, live price 15.2 and a BUY of 200: the quotient is the
  double below 96, the quantity is reduced to 95 and the order is for 90 shares, which
  is not above the quotient.
\<close>

theorem buy_quantity_clamped_witness:
  "read_action (decide ''BUY'' 200) = Inr ''BUY'' \<and>
   read_quantity (decide ''BUY'' 200) = Inr 200 \<and> (0::int) < 200 \<and>
   \<not> flt (Fin 0) (Fin 0) \<and>
   get_realtime_price
     (trading_gateway 1536 [] (quote_of ''MSFT'' (Fin (4278419646001971 / 2 ^ 48))
                                 (Fin (4278419646001971 / 2 ^ 48)))) ''MSFT'' =
     Fin (4278419646001971 / 2 ^ 48) \<and>
   truthy (Fin (4278419646001971 / 2 ^ 48)) \<and>
   fdiv (fmul (Fin 1536) (fsub (Fin 1) default_buffer)) (Fin (4278419646001971 / 2 ^ 48)) =
     Inr (Fin (6755399441055743 / 2 ^ 46)) \<and>
   int_of_float (Fin (6755399441055743 / 2 ^ 46)) = Inr 95 \<and>
   scaled default_buffer 95 = Inr 90 \<and>
   default_buffer = Fin (3602879701896397 / 2 ^ 56) \<and>
   (0::real) \<le> 1536 \<and> (0::real) \<le> 3602879701896397 / 2 ^ 56 \<and>
   (3602879701896397 / 2 ^ 56 :: real) \<le> 1 \<and> (0::real) < 4278419646001971 / 2 ^ 48 \<and>
   execute_decision default_buffer
     (trading_gateway 1536 [] (quote_of ''MSFT'' (Fin (4278419646001971 / 2 ^ 48))
                                 (Fin (4278419646001971 / 2 ^ 48))))
     \<lparr>cash = Fin 1536, positions = Map.empty, equity = Fin 1536\<rparr>
     (''MSFT'', decide ''BUY'' 200) =
     Inr [Submitted ''BUY'' \<lparr>order_symbol = ''MSFT'', order_qty = Shares 90, order_side = BUY,
                              order_tif = DAY\<rparr>] \<and>
   fle (Fin (of_int 90)) (Fin (6755399441055743 / 2 ^ 46))"
proof -
  let ?px = "Fin (4278419646001971 / 2 ^ 48)"
  let ?gw = "trading_gateway 1536 [] (quote_of ''MSFT'' ?px ?px)"
  let ?pf = "\<lparr>cash = Fin 1536, positions = Map.empty, equity = Fin 1536\<rparr>"
  have a: "read_action (decide ''BUY'' 200) = Inr ''BUY''"
    by (simp add: read_action_def decide_def py_upper_def upper_char_def)
  have q: "read_quantity (decide ''BUY'' 200) = Inr 200"
    by (simp add: read_quantity_def decide_def)
  have z: "(0::int) < 200" by simp
  have s: "\<not> flt (Fin 0) (Fin 0)" by simp
  have p: "get_realtime_price ?gw ''MSFT'' = ?px" by (rule price_of_quote) simp
  have t: "truthy ?px" by (simp add: truthy_def)
  have i: "int_of_float (Fin (6755399441055743 / 2 ^ 46)) = Inr 95"
    by (simp add: py_trunc_def)
  note f = buy_floats(1) and g = buy_floats(2)
  have db: "default_buffer = Fin (3602879701896397 / 2 ^ 56)"
    by (simp add: default_buffer_def float_eval)
  have n1: "(0::real) \<le> 1536" by simp
  have n2: "(0::real) \<le> 3602879701896397 / 2 ^ 56" by simp
  have n3: "(3602879701896397 / 2 ^ 56 :: real) \<le> 1" by simp
  have n4: "(0::real) < 4278419646001971 / 2 ^ 48" by simp
  have s4: "\<not> flt (Fin 0) (case positions ?pf ''MSFT'' of None \<Rightarrow> Fin 0 | Some h \<Rightarrow> short h)"
    by simp
  have t5: "truthy (get_realtime_price ?gw ''MSFT'')" unfolding p by (rule t)
  have c6: "cash ?pf = Fin 1536" by simp
  have f6: "fdiv (fmul (cash ?pf) (fsub (Fin 1) default_buffer)) (get_realtime_price ?gw ''MSFT'') =
            Inr (Fin (6755399441055743 / 2 ^ 46))"
    unfolding p c6 by (rule f)
  have g8: "scaled default_buffer (if (200::int) > 95 then 95 else 200) = Inr 90"
    using g by simp
  note th = buy_quantity_clamped [where pf = ?pf and ticker = "''MSFT''" and gw = ?gw
      and final = 90 and c = 1536 and \<beta> = "3602879701896397 / 2 ^ 56"
      and p = "4278419646001971 / 2 ^ 48", OF a q z s4 t5 f6 i g8]
  have x: "execute_decision default_buffer ?gw ?pf (''MSFT'', decide ''BUY'' 200) =
     Inr [Submitted ''BUY'' \<lparr>order_symbol = ''MSFT'', order_qty = Shares 90, order_side = BUY,
                              order_tif = DAY\<rparr>]"
    using th [THEN conjunct1] by simp
  have "cash ?pf = Fin 1536 \<and> (0::real) \<le> 1536 \<and>
        default_buffer = Fin (3602879701896397 / 2 ^ 56) \<and>
        (0::real) \<le> 3602879701896397 / 2 ^ 56 \<and> (3602879701896397 / 2 ^ 56 :: real) \<le> 1 \<and>
        get_realtime_price ?gw ''MSFT'' = Fin (4278419646001971 / 2 ^ 48) \<and>
        (0::real) < 4278419646001971 / 2 ^ 48"
    using c6 n1 db n2 n3 p n4 by (intro conjI)
  then have "0 \<le> (90::int) \<and> fle (Fin (of_int 90)) (Fin (6755399441055743 / 2 ^ 46))"
    by (rule th [THEN conjunct2, THEN conjunct1, THEN mp])
  then have y: "fle (Fin (of_int 90)) (Fin (6755399441055743 / 2 ^ 46))" ..
  show ?thesis by (intro conjI; fact)
qed

text \<open>
  C4, as stated. With a cash balance of -1000, a live price of 50 and a buffer of 0.05, a
  BUY of 10 is submitted with quantity -18: neither the floor of the scaled quantity
  nor within \<open>cash * (1 - buffer)\<close>. With a buffer of 0, cash 129453.1 and a live price
  of 127.54, the double quotient is 1015 and a BUY of 2000 is submitted with quantity
  1015, whose notional at the live price exceeds the cash.
\<close>

theorem buy_negative_cash_exceeds:
  "get_realtime_price (trading_gateway (- 1000) [] (quote_of ''MSFT'' (Fin 50) (Fin 50))) ''MSFT'' =
     Fin 50 \<and>
   execute_decisions default_buffer (trading_gateway (- 1000) [] (quote_of ''MSFT'' (Fin 50) (Fin 50)))
     [(''MSFT'', decide ''BUY'' 10)] =
     \<lparr>trade_log = [Submitted ''BUY'' \<lparr>order_symbol = ''MSFT'', order_qty = Shares (- 18),
                                      order_side = BUY, order_tif = DAY\<rparr>],
      escaped = None\<rparr> \<and>
   (- 18) * (50 :: real) > (- 1000) * (1 - 5 / 100) \<and>
   (- 18 :: int) \<noteq> \<lfloor>of_int \<lfloor>(- 1000) * (1 - 5 / 100) / (50 :: real)\<rfloor> * (1 - 5 / 100 :: real)\<rfloor> \<and>
   get_realtime_price
     (trading_gateway (4447974646926541 / 2 ^ 35) []
        (quote_of ''MSFT'' (Fin (8974829632419267 / 2 ^ 46)) (Fin (8974829632419267 / 2 ^ 46))))
     ''MSFT'' = Fin (8974829632419267 / 2 ^ 46) \<and>
   execute_decisions (Fin 0)
     (trading_gateway (4447974646926541 / 2 ^ 35) []
        (quote_of ''MSFT'' (Fin (8974829632419267 / 2 ^ 46)) (Fin (8974829632419267 / 2 ^ 46))))
     [(''MSFT'', decide ''BUY'' 2000)] =
     \<lparr>trade_log = [Submitted ''BUY'' \<lparr>order_symbol = ''MSFT'', order_qty = Shares 1015,
                                      order_side = BUY, order_tif = DAY\<rparr>],
      escaped = None\<rparr> \<and>
   1015 * (8974829632419267 / 2 ^ 46 :: real) > 4447974646926541 / 2 ^ 35 * (1 - 0)"
proof -
  let ?g1 = "trading_gateway (- 1000) [] (quote_of ''MSFT'' (Fin 50) (Fin 50))"
  let ?px = "Fin (8974829632419267 / 2 ^ 46)"
  let ?g2 = "trading_gateway (4447974646926541 / 2 ^ 35) [] (quote_of ''MSFT'' ?px ?px)"
  have p1: "get_realtime_price ?g1 ''MSFT'' = Fin 50" by (rule price_of_quote) simp
  have p2: "get_realtime_price ?g2 ''MSFT'' = ?px" by (rule price_of_quote) simp
  have f1: "get_live_portfolio ?g1 =
              Inr \<lparr>cash = Fin (- 1000), positions = Map.empty, equity = Fin (- 1000)\<rparr>"
    by (rule portfolio_of_cash) (rule buy_floats)
  have f2: "get_live_portfolio ?g2 =
              Inr \<lparr>cash = Fin (4447974646926541 / 2 ^ 35), positions = Map.empty,
                   equity = Fin (4447974646926541 / 2 ^ 35)\<rparr>"
    by (rule portfolio_of_cash) (rule buy_floats)
  have x1: "execute_decision default_buffer ?g1
              \<lparr>cash = Fin (- 1000), positions = Map.empty, equity = Fin (- 1000)\<rparr>
              (''MSFT'', decide ''BUY'' 10) =
            Inr [Submitted ''BUY'' \<lparr>order_symbol = ''MSFT'', order_qty = Shares (- 18),
                                     order_side = BUY, order_tif = DAY\<rparr>]"
    by (rule buy_item [where p = 50 and room = "Fin (- 19)" and max_qty = "- 19",
          OF _ p1 _ buy_floats(3)])
       (simp_all add: buy_floats(4) py_trunc_def)
  have x2: "execute_decision (Fin 0) ?g2
              \<lparr>cash = Fin (4447974646926541 / 2 ^ 35), positions = Map.empty,
                 equity = Fin (4447974646926541 / 2 ^ 35)\<rparr>
              (''MSFT'', decide ''BUY'' 2000) =
            Inr [Submitted ''BUY'' \<lparr>order_symbol = ''MSFT'', order_qty = Shares 1015,
                                     order_side = BUY, order_tif = DAY\<rparr>]"
    by (rule buy_item [where p = "8974829632419267 / 2 ^ 46" and room = "Fin 1015"
          and max_qty = 1015, OF _ p2 _ buy_floats(5)])
       (simp_all add: buy_floats(6) py_trunc_def)
  have e1: "execute_decisions default_buffer ?g1 [(''MSFT'', decide ''BUY'' 10)] =
     \<lparr>trade_log = [Submitted ''BUY'' \<lparr>order_symbol = ''MSFT'', order_qty = Shares (- 18),
                                      order_side = BUY, order_tif = DAY\<rparr>],
      escaped = None\<rparr>"
    unfolding execute_decisions_def f1 sum.case decisions_loop.simps x1 by simp
  have e2: "execute_decisions (Fin 0) ?g2 [(''MSFT'', decide ''BUY'' 2000)] =
     \<lparr>trade_log = [Submitted ''BUY'' \<lparr>order_symbol = ''MSFT'', order_qty = Shares 1015,
                                      order_side = BUY, order_tif = DAY\<rparr>],
      escaped = None\<rparr>"
    unfolding execute_decisions_def f2 sum.case decisions_loop.simps x2 by simp
  have n1: "(- 18) * (50 :: real) > (- 1000) * (1 - 5 / 100)" by simp
  have n2: "(- 18 :: int) \<noteq> \<lfloor>of_int \<lfloor>(- 1000) * (1 - 5 / 100) / (50 :: real)\<rfloor> * (1 - 5 / 100 :: real)\<rfloor>"
    by simp
  have n3: "1015 * (8974829632419267 / 2 ^ 46 :: real) > 4447974646926541 / 2 ^ 35 * (1 - 0)"
    by simp
  show ?thesis by (intro conjI; fact)
qed

end
